theory Spec2Isabelle
  imports Main "HOL-Library.AList"
begin

section \<open>Values, status codes and machine integers\<close>

text \<open>
  The C++ type \<open>int\<close> is modelled by \<open>int\<close>; where the source computes a new
  \<open>int\<close> the result is brought back into the 32-bit two's complement range by
  \<open>int32\<close>, and the division of C++ (which truncates towards zero) is \<open>cdiv\<close>.
\<close>

definition int32 :: "int \<Rightarrow> int" where
  "int32 x = (x + 2147483648) mod 4294967296 - 2147483648"

definition cdiv :: "int \<Rightarrow> int \<Rightarrow> int" where
  "cdiv a b = sgn a * sgn b * (\<bar>a\<bar> div \<bar>b\<bar>)"

text \<open>
  \<open>base::Value\<close>: a JSON value. A dictionary keeps one entry per key; it is an
  association list read with \<open>map_of\<close> and written with \<open>AList.update\<close>.
  A double is never inspected by the code below; it is kept as mantissa and exponent.
\<close>

datatype Value =
    Null
  | Boolean bool
  | Integer int
  | Double int int
  | String string
  | Dict "(string \<times> Value) list"
  | List "Value list"

type_synonym Dict = "(string \<times> Value) list"

definition FindKey :: "Dict \<Rightarrow> string \<Rightarrow> Value option" where
  "FindKey d k = map_of d k"

definition FindInt :: "Dict \<Rightarrow> string \<Rightarrow> int option" where
  "FindInt d k = (case map_of d k of Some (Integer i) \<Rightarrow> Some i | _ \<Rightarrow> None)"

definition FindString :: "Dict \<Rightarrow> string \<Rightarrow> string option" where
  "FindString d k = (case map_of d k of Some (String s) \<Rightarrow> Some s | _ \<Rightarrow> None)"

definition FindDict :: "Dict \<Rightarrow> string \<Rightarrow> Dict option" where
  "FindDict d k = (case map_of d k of Some (Dict x) \<Rightarrow> Some x | _ \<Rightarrow> None)"

definition Set :: "Dict \<Rightarrow> string \<Rightarrow> Value \<Rightarrow> Dict" where
  "Set d k v = AList.update k v d"

text \<open>The status codes this file produces, and \<open>Status\<close> with its optional details.\<close>

datatype StatusCode =
    kOk
  | kInvalidArgument
  | kNoSuchFrame
  | kNoSuchWindow
  | kUnknownCommand
  | kUnknownError
  | kUnexpectedAlertOpen
  | kDisconnected
  | kTimeout
  | kTabCrashed
  | kTargetDetached

datatype Status = Status (code: StatusCode) (details: "string option")

definition IsError :: "Status \<Rightarrow> bool" where
  "IsError s = (code s \<noteq> kOk)"

definition IsOk :: "Status \<Rightarrow> bool" where
  "IsOk s = (code s = kOk)"

text \<open>
  The JSON reader and writer belong to the base library. They are parameters of the
  model: \<open>rd opts text\<close> is the value read, if any, and \<open>wr v\<close> the text written.
  \<open>JSON_READER_DEFAULT\<close> stands for the options of a call that names none.
\<close>

datatype json_options =
    JSON_READER_DEFAULT
  | JSON_REPLACE_INVALID_CHARACTERS
  | JSON_PARSE_CHROMIUM_EXTENSIONS

type_synonym json_reader = "json_options \<Rightarrow> string \<Rightarrow> Value option"
type_synonym json_writer = "Value \<Rightarrow> string"

section \<open>Constants of the anonymous namespace\<close>

definition kInspectorDefaultContextError :: string where
  "kInspectorDefaultContextError = ''Cannot find default execution context''"

definition kInspectorContextError :: string where
  "kInspectorContextError = ''Cannot find context with specified id''"

definition kInspectorInvalidURL :: string where
  "kInspectorInvalidURL = ''Cannot navigate to invalid URL''"

definition kInspectorInsecureContext :: string where
  "kInspectorInsecureContext = ''Permission can't be granted in current context.''"

definition kInspectorOpaqueOrigins :: string where
  "kInspectorOpaqueOrigins = ''Permission can't be granted to opaque origins.''"

definition kInspectorPushPermissionError :: string where
  "kInspectorPushPermissionError =
     ''Push Permission without userVisibleOnly:true isn't supported''"

definition kInspectorNoSuchFrameError :: string where
  "kInspectorNoSuchFrameError = ''Frame with the given id was not found.''"

definition kNoTargetWithGivenIdError :: string where
  "kNoTargetWithGivenIdError = ''No target with given id found''"

definition kSessionNotFoundInspectorCode :: int where
  "kSessionNotFoundInspectorCode = - 32001"

definition kCdpMethodNotFoundCode :: int where
  "kCdpMethodNotFoundCode = - 32601"

definition kInvalidParamsInspectorCode :: int where
  "kInvalidParamsInspectorCode = - 32602"

definition kReservedChannelCount :: int where
  "kReservedChannelCount = 1"

definition kUserChannelCount :: int where
  "kUserChannelCount = 1"

definition kMaxChannelCount :: int where
  "kMaxChannelCount = kReservedChannelCount + kUserChannelCount"

lemmas inspector_consts =
  kInspectorDefaultContextError_def kInspectorContextError_def kInspectorInvalidURL_def
  kInspectorInsecureContext_def kInspectorOpaqueOrigins_def
  kInspectorPushPermissionError_def kInspectorNoSuchFrameError_def
  kNoTargetWithGivenIdError_def kSessionNotFoundInspectorCode_def
  kCdpMethodNotFoundCode_def kInvalidParamsInspectorCode_def

section \<open>The message codec\<close>

record InspectorEvent =
  ev_method :: string
  ev_params :: Value

record InspectorCommandResponse =
  rsp_id :: int
  rsp_error :: string
  rsp_result :: "Value option"

datatype InspectorMessage =
    kEventMessageType InspectorEvent
  | kCommandResponseMessageType InspectorCommandResponse

text \<open>\<open>IsBidiMessage\<close>: the status and the flag written through \<open>is_bidi_message\<close>.\<close>

definition IsBidiMessage :: "string \<Rightarrow> Dict \<Rightarrow> Status \<times> bool" where
  "IsBidiMessage method params =
     (if method \<noteq> ''Runtime.bindingCalled'' then (Status kOk None, False)
      else case FindString params ''name'' of
        None \<Rightarrow>
          (Status kUnknownError
             (Some ''name is missing in the Runtime.bindingCalled params''), False)
      | Some name \<Rightarrow>
          if name \<noteq> ''sendBidiResponse'' then (Status kOk None, False)
          else (Status kOk None, True))"

definition DeserializePayload :: "json_reader \<Rightarrow> Dict \<Rightarrow> Status \<times> Dict" where
  "DeserializePayload rd params =
     (case FindString params ''payload'' of
        None \<Rightarrow>
          (Status kUnknownError
             (Some ''payload is missing in the Runtime.bindingCalled params''), [])
      | Some payload \<Rightarrow>
          (case rd JSON_PARSE_CHROMIUM_EXTENSIONS payload of
             Some (Dict d) \<Rightarrow> (Status kOk None, d)
           | _ \<Rightarrow>
             (Status kUnknownError (Some ''unable to deserialize the BiDi payload''), [])))"

text \<open>
  \<open>ParseInspectorMessage\<close>: \<open>None\<close> is the source's \<open>false\<close>; otherwise the
  session id and the event or command response that were written through the
  out-parameters. The parameter \<open>expected_id\<close> is unused, as in the source.
\<close>

definition ParseInspectorMessage ::
  "json_reader \<Rightarrow> json_writer \<Rightarrow> string \<Rightarrow> int \<Rightarrow> (string \<times> InspectorMessage) option"
where
  "ParseInspectorMessage rd wr message expected_id =
     (case rd JSON_REPLACE_INVALID_CHARACTERS message of
        Some (Dict message_dict) \<Rightarrow>
          (let session_id =
                 (case FindString message_dict ''sessionId'' of
                    Some str \<Rightarrow> str | None \<Rightarrow> [])
           in case FindKey message_dict ''id'' of
             None \<Rightarrow>
               (case FindString message_dict ''method'' of
                  None \<Rightarrow> None
                | Some method \<Rightarrow>
                    (case FindDict message_dict ''params'' of
                       None \<Rightarrow>
                         Some (session_id,
                           kEventMessageType \<lparr>ev_method = method, ev_params = Dict []\<rparr>)
                     | Some params \<Rightarrow>
                         (case IsBidiMessage method params of
                            (status, is_bidi_message) \<Rightarrow>
                              if IsError status then None
                              else if is_bidi_message then
                                (case DeserializePayload rd params of
                                   (status2, payload) \<Rightarrow>
                                     if IsError status2 then None
                                     else
                                       let payload' =
                                             (case FindInt payload ''id'' of
                                                Some cmd_id \<Rightarrow>
                                                  Set payload ''id''
                                                    (Integer (cdiv cmd_id kMaxChannelCount))
                                              | None \<Rightarrow> payload);
                                           params' = Set params ''payload'' (Dict payload')
                                       in Some (session_id,
                                            kEventMessageType
                                              \<lparr>ev_method = method, ev_params = Dict params'\<rparr>))
                              else
                                Some (session_id,
                                  kEventMessageType
                                    \<lparr>ev_method = method, ev_params = Dict params\<rparr>))))
           | Some (Integer i) \<Rightarrow>
               (case FindDict message_dict ''result'' of
                  Some unscoped_result \<Rightarrow>
                    Some (session_id,
                      kCommandResponseMessageType
                        \<lparr>rsp_id = i, rsp_error = [], rsp_result = Some (Dict unscoped_result)\<rparr>)
                | None \<Rightarrow>
                    (case FindDict message_dict ''error'' of
                       Some unscoped_error \<Rightarrow>
                         Some (session_id,
                           kCommandResponseMessageType
                             \<lparr>rsp_id = i, rsp_error = wr (Dict unscoped_error),
                              rsp_result = None\<rparr>)
                     | None \<Rightarrow>
                         Some (session_id,
                           kCommandResponseMessageType
                             \<lparr>rsp_id = i, rsp_error = [], rsp_result = Some (Dict [])\<rparr>)))
           | Some _ \<Rightarrow> None)
      | _ \<Rightarrow> None)"

definition ParseInspectorError :: "json_reader \<Rightarrow> string \<Rightarrow> Status" where
  "ParseInspectorError rd error_json =
     (case rd JSON_READER_DEFAULT error_json of
        Some (Dict error_dict) \<Rightarrow>
          (let maybe_code = FindInt error_dict ''code'';
               maybe_message = FindString error_dict ''message''
           in
             if maybe_code = Some kCdpMethodNotFoundCode then
               Status kUnknownCommand
                 (Some (case maybe_message of Some m \<Rightarrow> m | None \<Rightarrow> ''UnknownCommand''))
             else if maybe_code = Some kSessionNotFoundInspectorCode then
               Status kNoSuchFrame
                 (Some (case maybe_message of Some m \<Rightarrow> m | None \<Rightarrow> ''inspector detached''))
             else
               (case maybe_message of
                  Some error_message \<Rightarrow>
                    if error_message = kInspectorDefaultContextError \<or>
                       error_message = kInspectorContextError then
                      Status kNoSuchWindow None
                    else if error_message = kInspectorInvalidURL then
                      Status kInvalidArgument None
                    else if error_message = kInspectorInsecureContext then
                      Status kInvalidArgument
                        (Some ''feature cannot be used in insecure context'')
                    else if error_message = kInspectorPushPermissionError \<or>
                            error_message = kInspectorOpaqueOrigins then
                      Status kInvalidArgument (Some error_message)
                    else if error_message = kInspectorNoSuchFrameError then
                      Status kNoSuchFrame (Some error_message)
                    else if FindInt error_dict ''code'' = Some kInvalidParamsInspectorCode then
                      (if error_message = kNoTargetWithGivenIdError then
                         Status kNoSuchWindow (Some error_message)
                       else Status kInvalidArgument (Some error_message))
                    else
                      Status kUnknownError
                        (Some (''unhandled inspector error: '' @ error_json))
                | None \<Rightarrow>
                    Status kUnknownError
                      (Some (''unhandled inspector error: '' @ error_json))))
      | _ \<Rightarrow> Status kUnknownError (Some ''inspector error with no error message''))"

section \<open>Sessions, response slots and the world\<close>

type_synonym client_ptr = nat
type_synonym listener_ptr = nat
type_synonym owner_ptr = nat
type_synonym socket_ptr = nat
type_synonym slot_ptr = nat
type_synonym Timeout = "nat option"

datatype ResponseState = kWaiting | kBlocked | kIgnored | kReceived

record ResponseInfo =
  ri_state :: ResponseState
  ri_method :: string
  ri_response :: InspectorCommandResponse
  ri_command_timeout :: Timeout

record DevToolsClientImpl =
  m_socket :: "socket_ptr option"
  m_owner :: "owner_ptr option"
  m_session_id :: string
  m_parent :: "client_ptr option"
  m_children :: "(string \<times> client_ptr) list"
  m_crashed :: bool
  m_detached :: bool
  m_id :: string
  m_parser_func :: "string \<Rightarrow> int \<Rightarrow> (string \<times> InspectorMessage) option"
  m_listeners :: "listener_ptr list"
  m_unnotified_connect_listeners :: "listener_ptr list"
  m_unnotified_event_listeners :: "listener_ptr list"
  m_unnotified_event :: "InspectorEvent option"
  m_unnotified_cmd_response_listeners :: "listener_ptr list"
  m_unnotified_cmd_response_info :: "slot_ptr option"
  m_response_info_map :: "(int \<times> slot_ptr) list"
  m_next_id :: int
  m_stack_count :: int
  m_is_remote_end_configured :: bool
  m_is_main_page :: bool

record 'e world =
  clients :: "client_ptr \<Rightarrow> DevToolsClientImpl"
  heap :: "ResponseInfo list"
  ext :: 'e

definition update_client ::
  "client_ptr \<Rightarrow> (DevToolsClientImpl \<Rightarrow> DevToolsClientImpl) \<Rightarrow> 'e world \<Rightarrow> 'e world" where
  "update_client c f w = w\<lparr>clients := (clients w)(c := f (clients w c))\<rparr>"

definition update_slot ::
  "slot_ptr \<Rightarrow> (ResponseInfo \<Rightarrow> ResponseInfo) \<Rightarrow> 'e world \<Rightarrow> 'e world" where
  "update_slot r f w = w\<lparr>heap := (heap w)[r := f (heap w ! r)]\<rparr>"

datatype api_call =
    SendCommand_call client_ptr string Dict
  | SendCommandWithTimeout_call client_ptr string Dict "Timeout option"
  | SendAsyncCommand_call client_ptr string Dict
  | SendCommandAndGetResult_call client_ptr string Dict
  | SendCommandAndGetResultWithTimeout_call client_ptr string Dict "Timeout option"
  | SendCommandAndIgnoreResponse_call client_ptr string Dict
  | SendCommandFromWebSocket_call client_ptr string Dict int
  | PostBidiCommand_call client_ptr Dict

datatype 'e script =
    Return Status
  | Call api_call "Status \<Rightarrow> Value option \<Rightarrow> 'e script"
  | Get "'e \<Rightarrow> 'e script"
  | Put 'e "'e script"

datatype SyncWebSocket_StatusCode = ws_kOk | ws_kTimeout | ws_kDisconnected

record 'e env =
  JSONReader_Read :: json_reader
  SerializeAsJson :: "Value \<Rightarrow> Status \<times> string"
  FormatSeconds :: "Timeout \<Rightarrow> string"
  socket_IsConnected :: "socket_ptr \<Rightarrow> 'e \<Rightarrow> bool"
  socket_Send :: "socket_ptr \<Rightarrow> string \<Rightarrow> 'e \<Rightarrow> bool \<times> 'e"
  socket_ReceiveNextMessage ::
    "socket_ptr \<Rightarrow> Timeout \<Rightarrow> 'e \<Rightarrow> (SyncWebSocket_StatusCode \<times> string) \<times> 'e"
  GetDialogMessage :: "owner_ptr \<Rightarrow> 'e \<Rightarrow> Status \<times> string"
  OnConnected :: "listener_ptr \<Rightarrow> client_ptr \<Rightarrow> 'e script"
  OnEvent :: "listener_ptr \<Rightarrow> client_ptr \<Rightarrow> string \<Rightarrow> Value \<Rightarrow> 'e script"
  OnCommandSuccess ::
    "listener_ptr \<Rightarrow> client_ptr \<Rightarrow> string \<Rightarrow> Value option \<Rightarrow> Timeout \<Rightarrow> 'e script"

type_synonym 'e result = "((Status \<times> Value option) \<times> 'e world) option"

type_synonym 'e send =
  "client_ptr \<Rightarrow> string \<Rightarrow> Dict \<Rightarrow> bool \<Rightarrow> bool \<Rightarrow> bool \<Rightarrow> int \<Rightarrow> Timeout option \<Rightarrow>
   'e world \<Rightarrow> 'e result"

primrec run_script ::
  "(api_call \<Rightarrow> 'e world \<Rightarrow> 'e result) \<Rightarrow> 'e script \<Rightarrow> 'e world \<Rightarrow> (Status \<times> 'e world) option"
where
  "run_script api (Return status) = (\<lambda>w. Some (status, w))"
| "run_script api (Call a k) =
     (\<lambda>w. case api a w of
             None \<Rightarrow> None
           | Some ((status, res), w') \<Rightarrow> run_script api (k status res) w')"
| "run_script api (Get k) = (\<lambda>w. run_script api (k (ext w)) w)"
| "run_script api (Put e k) = (\<lambda>w. run_script api k (w\<lparr>ext := e\<rparr>))"

fun GetRootClient :: "nat \<Rightarrow> 'e world \<Rightarrow> client_ptr \<Rightarrow> client_ptr option" where
  "GetRootClient fuel w this =
     (case m_parent (clients w this) of
        None \<Rightarrow> Some this
      | Some p \<Rightarrow> (case fuel of 0 \<Rightarrow> None | Suc n \<Rightarrow> GetRootClient n w p))"


section \<open>Command ids\<close>

definition NextMessageId :: "nat \<Rightarrow> 'e world \<Rightarrow> client_ptr \<Rightarrow> int option" where
  "NextMessageId fuel w this =
     (case GetRootClient fuel w this of
        None \<Rightarrow> None
      | Some root \<Rightarrow> Some (m_next_id (clients w root)))"

definition AdvanceNextMessageId ::
  "nat \<Rightarrow> client_ptr \<Rightarrow> 'e world \<Rightarrow> (int \<times> 'e world) option" where
  "AdvanceNextMessageId fuel this w =
     (case GetRootClient fuel w this of
        None \<Rightarrow> None
      | Some root \<Rightarrow>
          Some (m_next_id (clients w root),
                update_client root (\<lambda>c. c\<lparr>m_next_id := int32 (m_next_id c + 1)\<rparr>) w))"

section \<open>The public sending operations\<close>

definition SendCommandWithTimeout ::
  "'e send \<Rightarrow> client_ptr \<Rightarrow> string \<Rightarrow> Dict \<Rightarrow> Timeout option \<Rightarrow> 'e world \<Rightarrow> 'e result" where
  "SendCommandWithTimeout send this method params timeout w =
     (case send this method params True True True 0 timeout w of
        None \<Rightarrow> None
      | Some ((status, result), w') \<Rightarrow> Some ((status, None), w'))"

definition SendCommand ::
  "'e send \<Rightarrow> client_ptr \<Rightarrow> string \<Rightarrow> Dict \<Rightarrow> 'e world \<Rightarrow> 'e result" where
  "SendCommand send this method params w = SendCommandWithTimeout send this method params None w"

definition SendCommandFromWebSocket ::
  "'e send \<Rightarrow> client_ptr \<Rightarrow> string \<Rightarrow> Dict \<Rightarrow> int \<Rightarrow> 'e world \<Rightarrow> 'e result" where
  "SendCommandFromWebSocket send this method params client_command_id w =
     send this method params False False False client_command_id None w"

definition SendAsyncCommand ::
  "'e send \<Rightarrow> client_ptr \<Rightarrow> string \<Rightarrow> Dict \<Rightarrow> 'e world \<Rightarrow> 'e result" where
  "SendAsyncCommand send this method params w =
     (case send this method params True False False 0 None w of
        None \<Rightarrow> None
      | Some ((status, result), w') \<Rightarrow> Some ((status, None), w'))"

definition SendCommandAndGetResultWithTimeout ::
  "'e send \<Rightarrow> client_ptr \<Rightarrow> string \<Rightarrow> Dict \<Rightarrow> Timeout option \<Rightarrow> 'e world \<Rightarrow> 'e result" where
  "SendCommandAndGetResultWithTimeout send this method params timeout w =
     (case send this method params True True True 0 timeout w of
        None \<Rightarrow> None
      | Some ((status, intermediate_result), w') \<Rightarrow>
          if IsError status then Some ((status, None), w')
          else (case intermediate_result of
                  Some (Dict d) \<Rightarrow> Some ((Status kOk None, Some (Dict d)), w')
                | _ \<Rightarrow>
                  Some ((Status kUnknownError (Some ''inspector response missing result''),
                         None), w')))"

definition SendCommandAndGetResult ::
  "'e send \<Rightarrow> client_ptr \<Rightarrow> string \<Rightarrow> Dict \<Rightarrow> 'e world \<Rightarrow> 'e result" where
  "SendCommandAndGetResult send this method params w =
     SendCommandAndGetResultWithTimeout send this method params None w"

definition SendCommandAndIgnoreResponse ::
  "'e send \<Rightarrow> client_ptr \<Rightarrow> string \<Rightarrow> Dict \<Rightarrow> 'e world \<Rightarrow> 'e result" where
  "SendCommandAndIgnoreResponse send this method params w =
     send this method params False True False 0 None w"

definition PostBidiCommandInternal ::
  "'e env \<Rightarrow> 'e send \<Rightarrow> client_ptr \<Rightarrow> int \<Rightarrow> Dict \<Rightarrow> 'e world \<Rightarrow> 'e result" where
  "PostBidiCommandInternal env send this bidi_channel command w =
     (case FindInt command ''id'' of
        None \<Rightarrow> Some ((Status kInvalidArgument (Some ''BiDi command id not found''), None), w)
      | Some maybe_cmd_id \<Rightarrow>
          if bidi_channel < 0 \<or> bidi_channel \<ge> kMaxChannelCount then
            Some ((Status kUnknownError (Some ''BiDi channel id is out of range''), None), w)
          else
            let cmd_id = int32 (maybe_cmd_id * kMaxChannelCount + bidi_channel);
                command' = Set command ''id'' (Integer cmd_id)
            in case SerializeAsJson env (Dict command') of
                 (status, json) \<Rightarrow>
                   if IsError status then Some ((status, None), w)
                   else case SerializeAsJson env (String json) of
                     (status2, arg) \<Rightarrow>
                       if IsError status2 then Some ((status2, None), w)
                       else
                         let expression = ''onBidiMessage('' @ arg @ '')'';
                             params = Set [] ''expression'' (String expression)
                         in SendCommandAndIgnoreResponse send this ''Runtime.evaluate'' params w)"

definition PostBidiCommand ::
  "'e env \<Rightarrow> 'e send \<Rightarrow> client_ptr \<Rightarrow> Dict \<Rightarrow> 'e world \<Rightarrow> 'e result" where
  "PostBidiCommand env send this command w =
     PostBidiCommandInternal env send this kReservedChannelCount command w"

text \<open>What a listener may call on a client.\<close>

fun call_api :: "'e env \<Rightarrow> 'e send \<Rightarrow> api_call \<Rightarrow> 'e world \<Rightarrow> 'e result" where
  "call_api env send (SendCommand_call c method params) w = SendCommand send c method params w"
| "call_api env send (SendCommandWithTimeout_call c method params t) w =
     SendCommandWithTimeout send c method params t w"
| "call_api env send (SendAsyncCommand_call c method params) w =
     SendAsyncCommand send c method params w"
| "call_api env send (SendCommandAndGetResult_call c method params) w =
     SendCommandAndGetResult send c method params w"
| "call_api env send (SendCommandAndGetResultWithTimeout_call c method params t) w =
     SendCommandAndGetResultWithTimeout send c method params t w"
| "call_api env send (SendCommandAndIgnoreResponse_call c method params) w =
     SendCommandAndIgnoreResponse send c method params w"
| "call_api env send (SendCommandFromWebSocket_call c method params i) w =
     SendCommandFromWebSocket send c method params i w"
| "call_api env send (PostBidiCommand_call c command) w = PostBidiCommand env send c command w"

section \<open>Notifying listeners\<close>

fun EnsureListenersNotifiedOfConnect ::
  "nat \<Rightarrow> 'e env \<Rightarrow> 'e send \<Rightarrow> client_ptr \<Rightarrow> 'e world \<Rightarrow> (Status \<times> 'e world) option" where
  "EnsureListenersNotifiedOfConnect fuel env send this w =
     (case m_unnotified_connect_listeners (clients w this) of
        [] \<Rightarrow> Some (Status kOk None, w)
      | listener # rest \<Rightarrow>
          (case fuel of
             0 \<Rightarrow> None
           | Suc n \<Rightarrow>
               (case run_script (call_api env send) (OnConnected env listener this)
                       (update_client this
                          (\<lambda>c. c\<lparr>m_unnotified_connect_listeners := rest\<rparr>) w) of
                  None \<Rightarrow> None
                | Some (status, w') \<Rightarrow>
                    if IsError status then Some (status, w')
                    else EnsureListenersNotifiedOfConnect n env send this w')))"

fun EnsureListenersNotifiedOfEvent ::
  "nat \<Rightarrow> 'e env \<Rightarrow> 'e send \<Rightarrow> client_ptr \<Rightarrow> 'e world \<Rightarrow> (Status \<times> 'e world) option" where
  "EnsureListenersNotifiedOfEvent fuel env send this w =
     (case m_unnotified_event_listeners (clients w this) of
        [] \<Rightarrow> Some (Status kOk None, w)
      | listener # rest \<Rightarrow>
          (case fuel of
             0 \<Rightarrow> None
           | Suc n \<Rightarrow>
               (case m_unnotified_event (clients w this) of
                  None \<Rightarrow> None
                | Some event \<Rightarrow>
                    (case run_script (call_api env send)
                            (OnEvent env listener this (ev_method event) (ev_params event))
                            (update_client this
                               (\<lambda>c. c\<lparr>m_unnotified_event_listeners := rest\<rparr>) w) of
                       None \<Rightarrow> None
                     | Some (status, w') \<Rightarrow>
                         if IsError status then
                           Some (status,
                             update_client this
                               (\<lambda>c. c\<lparr>m_unnotified_event_listeners := []\<rparr>) w')
                         else EnsureListenersNotifiedOfEvent n env send this w'))))"

fun EnsureListenersNotifiedOfCommandResponse ::
  "nat \<Rightarrow> 'e env \<Rightarrow> 'e send \<Rightarrow> client_ptr \<Rightarrow> 'e world \<Rightarrow> (Status \<times> 'e world) option" where
  "EnsureListenersNotifiedOfCommandResponse fuel env send this w =
     (case m_unnotified_cmd_response_listeners (clients w this) of
        [] \<Rightarrow> Some (Status kOk None, w)
      | listener # rest \<Rightarrow>
          (case fuel of
             0 \<Rightarrow> None
           | Suc n \<Rightarrow>
               (case m_unnotified_cmd_response_info (clients w this) of
                  None \<Rightarrow> None
                | Some info \<Rightarrow>
                    (case run_script (call_api env send)
                            (OnCommandSuccess env listener this
                               (ri_method (heap w ! info))
                               (rsp_result (ri_response (heap w ! info)))
                               (ri_command_timeout (heap w ! info)))
                            (update_client this
                               (\<lambda>c. c\<lparr>m_unnotified_cmd_response_listeners := rest\<rparr>) w) of
                       None \<Rightarrow> None
                     | Some (status, w') \<Rightarrow>
                         if IsError status then Some (status, w')
                         else EnsureListenersNotifiedOfCommandResponse n env send this w'))))"

declare EnsureListenersNotifiedOfConnect.simps [simp del]
declare EnsureListenersNotifiedOfEvent.simps [simp del]
declare EnsureListenersNotifiedOfCommandResponse.simps [simp del]
declare GetRootClient.simps [simp del]

section \<open>Events and command responses\<close>

text \<open>
  The loop of \<open>ProcessEvent\<close> over \<open>response_info_map_\<close>: every entry whose id is
  not above \<open>max_id\<close> and whose slot is waiting has its slot set to blocked.
\<close>

definition block_waiting ::
  "int \<Rightarrow> (int \<times> slot_ptr) list \<Rightarrow> ResponseInfo list \<Rightarrow> ResponseInfo list" where
  "block_waiting max_id entries h =
     fold (\<lambda>(first, second) h.
             if first > max_id then h
             else if ri_state (h ! second) = kWaiting
               then h[second := (h ! second)\<lparr>ri_state := kBlocked\<rparr>]
               else h)
          entries h"

definition ProcessEvent ::
  "nat \<Rightarrow> 'e env \<Rightarrow> 'e send \<Rightarrow> client_ptr \<Rightarrow> InspectorEvent \<Rightarrow> 'e world \<Rightarrow>
   (Status \<times> 'e world) option" where
  "ProcessEvent fuel env send this event w =
     (case EnsureListenersNotifiedOfEvent fuel env send this
             (update_client this
                (\<lambda>c. c\<lparr>m_unnotified_event_listeners := m_listeners c,
                       m_unnotified_event := Some event\<rparr>) w) of
        None \<Rightarrow> None
      | Some (status, w1) \<Rightarrow>
          let w2 = update_client this (\<lambda>c. c\<lparr>m_unnotified_event := None\<rparr>) w1 in
          if IsError status then Some (status, w2)
          else if ev_method event = ''Inspector.detached'' then
            Some (Status kDisconnected (Some ''received Inspector.detached event''), w2)
          else if ev_method event = ''Inspector.targetCrashed'' then
            Some (Status kTabCrashed None, update_client this (\<lambda>c. c\<lparr>m_crashed := True\<rparr>) w2)
          else if ev_method event = ''Page.javascriptDialogOpening'' then
            (case NextMessageId fuel w2 this of
               None \<Rightarrow> None
             | Some max_id \<Rightarrow>
                 (case SendCommand send this ''Inspector.enable''
                         (Set [] ''purpose'' (String ''detect if alert blocked any cmds'')) w2 of
                    None \<Rightarrow> None
                  | Some ((enable_status, result), w3) \<Rightarrow>
                      let w4 = w3\<lparr>heap := block_waiting max_id
                                              (m_response_info_map (clients w3 this)) (heap w3)\<rparr>
                      in if IsError enable_status then Some (status, w4)
                         else Some (Status kOk None, w4)))
          else Some (Status kOk None, w2))"

definition ProcessCommandResponse ::
  "nat \<Rightarrow> 'e env \<Rightarrow> 'e send \<Rightarrow> client_ptr \<Rightarrow> InspectorCommandResponse \<Rightarrow> 'e world \<Rightarrow>
   (Status \<times> 'e world) option" where
  "ProcessCommandResponse fuel env send this response w =
     (case map_of (m_response_info_map (clients w this)) (rsp_id response) of
        None \<Rightarrow>
          if m_parent (clients w this) = None \<and> rsp_result response = None \<and>
             code (ParseInspectorError (JSONReader_Read env) (rsp_error response)) = kNoSuchFrame
          then Some (Status kOk None, w)
          else Some (Status kUnknownError (Some ''unexpected command response''), w)
      | Some response_info \<Rightarrow>
          let w1 = update_client this
                     (\<lambda>c. c\<lparr>m_response_info_map :=
                              AList.delete (rsp_id response) (m_response_info_map c)\<rparr>) w;
              w2 = (if ri_state (heap w1 ! response_info) \<noteq> kIgnored then
                      update_slot response_info
                        (\<lambda>i. i\<lparr>ri_state := kReceived,
                               ri_response :=
                                 \<lparr>rsp_id = rsp_id response, rsp_error = rsp_error response,
                                  rsp_result =
                                    (case rsp_result response of
                                       Some r \<Rightarrow> Some r
                                     | None \<Rightarrow> rsp_result (ri_response i))\<rparr>\<rparr>) w1
                    else w1)
          in if rsp_result response \<noteq> None then
               (case EnsureListenersNotifiedOfCommandResponse fuel env send this
                       (update_client this
                          (\<lambda>c. c\<lparr>m_unnotified_cmd_response_listeners := m_listeners c,
                                 m_unnotified_cmd_response_info := Some response_info\<rparr>) w2) of
                  None \<Rightarrow> None
                | Some (status, w3) \<Rightarrow>
                    let w4 = update_client this
                               (\<lambda>c. c\<lparr>m_unnotified_cmd_response_info := None\<rparr>) w3
                    in if IsError status then Some (status, w4)
                       else Some (Status kOk None, w4))
             else Some (Status kOk None, w2))"

section \<open>The pump\<close>

definition HandleMessage ::
  "nat \<Rightarrow> 'e env \<Rightarrow> 'e send \<Rightarrow> client_ptr \<Rightarrow> int \<Rightarrow> string \<Rightarrow> client_ptr \<Rightarrow> 'e world \<Rightarrow>
   (Status \<times> 'e world) option" where
  "HandleMessage fuel env send this expected_id message caller w =
     (case m_parser_func (clients w this) message expected_id of
        None \<Rightarrow> Some (Status kUnknownError (Some (''bad inspector message: '' @ message)), w)
      | Some (session_id, msg) \<Rightarrow>
          (case (if session_id \<noteq> m_session_id (clients w this)
                 then map_of (m_children (clients w this)) session_id
                 else Some this) of
             None \<Rightarrow> Some (Status kOk None, w)
           | Some client \<Rightarrow>
               (case msg of
                  kEventMessageType event \<Rightarrow>
                    (case ProcessEvent fuel env send client event w of
                       None \<Rightarrow> None
                     | Some (status, w') \<Rightarrow>
                         if caller = client \<or> this = client then Some (status, w')
                         else Some (Status kOk None, w'))
                | kCommandResponseMessageType response \<Rightarrow>
                    (case ProcessCommandResponse fuel env send client response w of
                       None \<Rightarrow> None
                     | Some (status, w') \<Rightarrow>
                         if caller = client \<or> this = client then Some (status, w')
                         else Some (Status kOk None, w')))))"

text \<open>
  \<open>ProcessNextMessage\<close>. The scoped increment of \<open>stack_count_\<close> is undone on every
  return. A session with a parent hands the call to its parent.
\<close>

fun ProcessNextMessage ::
  "nat \<Rightarrow> 'e env \<Rightarrow> 'e send \<Rightarrow> client_ptr \<Rightarrow> int \<Rightarrow> bool \<Rightarrow> Timeout \<Rightarrow> client_ptr \<Rightarrow>
   'e world \<Rightarrow> (Status \<times> 'e world) option" where
  "ProcessNextMessage fuel env send this expected_id log_timeout timeout caller w =
     map_option
       (\<lambda>(status, w'). (status, update_client this (\<lambda>c. c\<lparr>m_stack_count := int32 (m_stack_count c - 1)\<rparr>) w'))
       (case EnsureListenersNotifiedOfConnect fuel env send this
               (update_client this (\<lambda>c. c\<lparr>m_stack_count := int32 (m_stack_count c + 1)\<rparr>) w) of
          None \<Rightarrow> None
        | Some (status1, w1) \<Rightarrow>
            if IsError status1 then Some (status1, w1)
            else
              (case EnsureListenersNotifiedOfEvent fuel env send this w1 of
                 None \<Rightarrow> None
               | Some (status2, w2) \<Rightarrow>
                   if IsError status2 then Some (status2, w2)
                   else
                     (case EnsureListenersNotifiedOfCommandResponse fuel env send this w2 of
                        None \<Rightarrow> None
                      | Some (status3, w3) \<Rightarrow>
                          if IsError status3 then Some (status3, w3)
                          else if expected_id \<noteq> - 1 \<and>
                                  (case map_of (m_response_info_map (clients w3 this)) expected_id of
                                     None \<Rightarrow> True
                                   | Some second \<Rightarrow> ri_state (heap w3 ! second) \<noteq> kWaiting)
                            then Some (Status kOk None, w3)
                          else if m_crashed (clients w3 this) then Some (Status kTabCrashed None, w3)
                          else if m_detached (clients w3 this) then
                            Some (Status kTargetDetached None, w3)
                          else
                            (case m_parent (clients w3 this) of
                               Some p \<Rightarrow>
                                 (case fuel of
                                    0 \<Rightarrow> None
                                  | Suc n \<Rightarrow>
                                      ProcessNextMessage n env send p (- 1) log_timeout timeout
                                        caller w3)
                             | None \<Rightarrow>
                                 (case m_socket (clients w3 this) of
                                    None \<Rightarrow> None
                                  | Some sock \<Rightarrow>
                                      (case socket_ReceiveNextMessage env sock timeout (ext w3) of
                                         ((ws_kOk, message), e) \<Rightarrow>
                                           HandleMessage fuel env send this expected_id message
                                             caller (w3\<lparr>ext := e\<rparr>)
                                       | ((ws_kDisconnected, message), e) \<Rightarrow>
                                           Some (Status kDisconnected
                                                   (Some ''Unable to receive message from renderer''),
                                                 w3\<lparr>ext := e\<rparr>)
                                       | ((ws_kTimeout, message), e) \<Rightarrow>
                                           Some (Status kTimeout
                                                   (Some (''Timed out receiving message from renderer: ''
                                                          @ FormatSeconds env timeout)),
                                                 w3\<lparr>ext := e\<rparr>)))))))"

declare ProcessNextMessage.simps [simp del]

section \<open>Sending a command\<close>

definition ResponseInfo_new :: "string \<Rightarrow> ResponseInfo" where
  "ResponseInfo_new method =
     \<lparr>ri_state = kWaiting, ri_method = method,
      ri_response = \<lparr>rsp_id = 0, rsp_error = [], rsp_result = None\<rparr>,
      ri_command_timeout = None\<rparr>"

text \<open>
  The \<open>while\<close> loop of \<open>SendCommandInternal\<close>: \<open>Inl\<close> is the return from inside
  the loop with an error status, \<open>Inr\<close> the world at the exit of the loop.
\<close>

fun SendCommandInternal_wait ::
  "nat \<Rightarrow> 'e env \<Rightarrow> 'e send \<Rightarrow> client_ptr \<Rightarrow> int \<Rightarrow> slot_ptr \<Rightarrow> Timeout option \<Rightarrow> 'e world \<Rightarrow>
   ((Status \<times> 'e world) + 'e world) option" where
  "SendCommandInternal_wait fuel env send this command_id response_info timeout w =
     (if ri_state (heap w ! response_info) \<noteq> kWaiting then Some (Inr w)
      else
        (case fuel of
           0 \<Rightarrow> None
         | Suc n \<Rightarrow>
             (case ProcessNextMessage fuel env send this command_id True
                     (case timeout of Some t \<Rightarrow> t | None \<Rightarrow> Some 600000) this w of
                None \<Rightarrow> None
              | Some (status, w1) \<Rightarrow>
                  if IsError status then
                    Some (Inl (status,
                      if ri_state (heap w1 ! response_info) = kReceived then
                        update_client this
                          (\<lambda>c. c\<lparr>m_response_info_map :=
                                   AList.delete command_id (m_response_info_map c)\<rparr>) w1
                      else w1))
                  else SendCommandInternal_wait n env send this command_id response_info
                         timeout w1)))"

declare SendCommandInternal_wait.simps [simp del]

definition SendCommandInternal ::
  "nat \<Rightarrow> 'e env \<Rightarrow> 'e send \<Rightarrow> 'e send" where
  "SendCommandInternal fuel env send this method params result expect_response
     wait_for_response client_command_id timeout w =
     (if m_parent (clients w this) = None \<and> m_socket (clients w this) = None then None
      else if m_parent (clients w this) = None \<and>
              \<not> socket_IsConnected env (the (m_socket (clients w this))) (ext w) then
        Some ((Status kDisconnected (Some ''not connected to DevTools''), None), w)
      else
        (case (if client_command_id \<noteq> 0 then Some (client_command_id, w)
               else AdvanceNextMessageId fuel this w) of
           None \<Rightarrow> None
         | Some (command_id, w1) \<Rightarrow>
             let command0 =
                   Set (Set (Set [] ''id'' (Integer command_id)) ''method'' (String method))
                     ''params'' (Dict params);
                 command =
                   (if m_session_id (clients w1 this) \<noteq> []
                    then Set command0 ''sessionId'' (String (m_session_id (clients w1 this)))
                    else command0)
             in case SerializeAsJson env (Dict command) of
               (status, message) \<Rightarrow>
                 if IsError status then Some ((status, None), w1)
                 else
                   (case GetRootClient fuel w1 this of
                      None \<Rightarrow> None
                    | Some root \<Rightarrow>
                        (case m_socket (clients w1 root) of
                           None \<Rightarrow> None
                         | Some socket \<Rightarrow>
                             (case socket_Send env socket message (ext w1) of
                                (sent, e) \<Rightarrow>
                                  let w2 = w1\<lparr>ext := e\<rparr> in
                                  if \<not> sent then
                                    Some ((Status kDisconnected
                                             (Some ''unable to send message to renderer''), None), w2)
                                  else if expect_response then
                                    (let response_info = length (heap w2);
                                         w3 = w2\<lparr>heap := heap w2 @
                                                  [(ResponseInfo_new method)
                                                     \<lparr>ri_command_timeout :=
                                                        (case timeout of Some t \<Rightarrow> t | None \<Rightarrow> None)\<rparr>]\<rparr>;
                                         w4 = update_client this
                                                (\<lambda>c. c\<lparr>m_response_info_map :=
                                                         AList.update command_id response_info
                                                           (m_response_info_map c)\<rparr>) w3
                                     in if wait_for_response then
                                          (case SendCommandInternal_wait fuel env send this
                                                  command_id response_info timeout w4 of
                                             None \<Rightarrow> None
                                           | Some (Inl (status, w5)) \<Rightarrow> Some ((status, None), w5)
                                           | Some (Inr w5) \<Rightarrow>
                                               if ri_state (heap w5 ! response_info) = kBlocked then
                                                 (let w6 = update_slot response_info
                                                             (\<lambda>i. i\<lparr>ri_state := kIgnored\<rparr>) w5
                                                  in case m_owner (clients w6 this) of
                                                    Some owner \<Rightarrow>
                                                      (case GetDialogMessage env owner (ext w6) of
                                                         (status, alert_text) \<Rightarrow>
                                                           if IsOk status then
                                                             Some ((Status kUnexpectedAlertOpen
                                                                      (Some (''{Alert text : '' @ alert_text @ ''}'')),
                                                                    None), w6)
                                                           else Some ((Status kUnexpectedAlertOpen None, None), w6))
                                                  | None \<Rightarrow>
                                                      Some ((Status kUnexpectedAlertOpen None, None), w6))
                                               else if ri_state (heap w5 ! response_info) \<noteq> kReceived
                                                 then None
                                               else
                                                 (case rsp_result (ri_response (heap w5 ! response_info)) of
                                                    None \<Rightarrow>
                                                      Some ((ParseInspectorError (JSONReader_Read env)
                                                               (rsp_error (ri_response (heap w5 ! response_info))),
                                                             None), w5)
                                                  | Some r \<Rightarrow>
                                                      if result then Some ((Status kOk None, Some r), w5)
                                                      else None))
                                        else Some ((Status kOk None, None), w4))
                                  else if wait_for_response then None
                                  else Some ((Status kOk None,
                                              if result then Some (Dict []) else None), w2))))))"

text \<open>
  A listener that sends a command re-enters \<open>SendCommandInternal\<close>. The depth of
  this nesting is bounded by the fuel: a send nested below depth \<open>fuel\<close> has no result.
\<close>

fun nested_send :: "nat \<Rightarrow> 'e env \<Rightarrow> 'e send" where
  "nested_send 0 env = (\<lambda>this method params result expect wait cid timeout w. None)"
| "nested_send (Suc n) env = SendCommandInternal (Suc n) env (nested_send n env)"

section \<open>The life of a response slot\<close>

text \<open>
  \<open>slot_le a b\<close>: a slot that is in state \<open>a\<close> when a run starts can be in
  state \<open>b\<close> when the run ends. The state moves from waiting to blocked or received
  and from blocked to received; it never comes back to waiting and never leaves received
  or ignored. The step from blocked to ignored is not among these: only the send that
  created a slot ignores it, after its own wait loop, so no run ignores a slot that
  existed before the run started.
\<close>

definition slot_le :: "ResponseState \<Rightarrow> ResponseState \<Rightarrow> bool" where
  "slot_le a b =
     (a = b \<or> (a = kWaiting \<and> (b = kBlocked \<or> b = kReceived)) \<or>
      (a = kBlocked \<and> b = kReceived))"

definition lifecycle :: "'e world \<Rightarrow> 'e world \<Rightarrow> bool" where
  "lifecycle w w' =
     (length (heap w) \<le> length (heap w') \<and>
      (\<forall>r < length (heap w). slot_le (ri_state (heap w ! r)) (ri_state (heap w' ! r))))"

text \<open>
  \<open>wf_slots\<close>: no slot is stored twice in the pending maps (under two ids or in two
  sessions), every stored slot exists, and no stored slot is in state received.
\<close>

definition wf_slots :: "'e world \<Rightarrow> bool" where
  "wf_slots w =
     ((\<forall>c c' i i' r.
         (i, r) \<in> set (m_response_info_map (clients w c)) \<and>
         (i', r) \<in> set (m_response_info_map (clients w c')) \<longrightarrow> c = c' \<and> i = i') \<and>
      (\<forall>c i r.
         (i, r) \<in> set (m_response_info_map (clients w c)) \<longrightarrow>
           r < length (heap w) \<and> ri_state (heap w ! r) \<noteq> kReceived))"

definition G :: "'e world \<Rightarrow> 'e world \<Rightarrow> bool" where
  "G w w' = (lifecycle w w' \<and> (wf_slots w \<longrightarrow> wf_slots w'))"

definition pres :: "('e world \<Rightarrow> ('a \<times> 'e world) option) \<Rightarrow> bool" where
  "pres f = (\<forall>w r w'. f w = Some (r, w') \<longrightarrow> G w w')"

definition send_ok :: "'e send \<Rightarrow> bool" where
  "send_ok send =
     (\<forall>this method params result expect wait cid timeout.
        pres (send this method params result expect wait cid timeout))"

section \<open>The error table of the specification\<close>

text \<open>
  The rows of the specification's error table, read in the table's order (an earlier
  row wins), with the one change the code forces: the row for the code \<open>-32602\<close>
  applies only when the error object carries a string message.
\<close>

definition inspector_error_kind :: "int option \<Rightarrow> string option \<Rightarrow> StatusCode" where
  "inspector_error_kind c m =
     (if c = Some (- 32601) then kUnknownCommand
      else if c = Some (- 32001) \<or> m = Some ''Frame with the given id was not found.''
        then kNoSuchFrame
      else if m = Some ''Cannot find default execution context'' \<or>
              m = Some ''Cannot find context with specified id'' \<or>
              (c = Some (- 32602) \<and> m = Some ''No target with given id found'')
        then kNoSuchWindow
      else if m = Some ''Cannot navigate to invalid URL'' \<or>
              m = Some ''Permission can't be granted in current context.'' \<or>
              m = Some ''Permission can't be granted to opaque origins.'' \<or>
              m = Some ''Push Permission without userVisibleOnly:true isn't supported'' \<or>
              (c = Some (- 32602) \<and> (case m of Some t \<Rightarrow> True | None \<Rightarrow> False))
        then kInvalidArgument
      else kUnknownError)"

section \<open>Concrete inputs\<close>

text \<open>
  A reader and a writer that know the few texts used in the examples below, a socket
  that delivers the frames of an inbox in order and times out when the inbox is empty,
  and listeners that record every call; listener \<open>0\<close> fails every call.
\<close>

definition backslash :: string where
  "backslash = [CHR 0x5C]"

definition bidi_frame :: "string \<Rightarrow> string" where
  "bidi_frame i =
     ''{\"method\":\"Runtime.bindingCalled\",\"params\":{\"name\":\"sendBidiResponse\",\"payload\":\"{''
     @ backslash @ ''\"id'' @ backslash @ ''\":'' @ i @ ''}\"}}''"

definition example_reader :: json_reader where
  "example_reader opts text =
     (if text = ''{\"code\":-32602}'' then Some (Dict [(''code'', Integer (- 32602))])
      else if text = ''{\"code\":-32602,\"message\":\"Invalid parameters\"}'' then
        Some (Dict [(''code'', Integer (- 32602)), (''message'', String ''Invalid parameters'')])
      else if text = ''{\"code\":-32001,\"message\":\"Session with given id not found.\"}'' then
        Some (Dict [(''code'', Integer (- 32001)),
                    (''message'', String ''Session with given id not found.'')])
      else if text = ''{\"id\":7}'' then Some (Dict [(''id'', Integer 7)])
      else if text = ''{\"method\":\"Page.loadEventFired\"}'' then
        Some (Dict [(''method'', String ''Page.loadEventFired'')])
      else if text = ''{\"method\":\"Page.frameNavigated\",\"params\":{\"url\":\"about:blank\"}}'' then
        Some (Dict [(''method'', String ''Page.frameNavigated''),
                    (''params'', Dict [(''url'', String ''about:blank'')])])
      else if text = ''{\"method\":\"Page.javascriptDialogOpening\"}'' then
        Some (Dict [(''method'', String ''Page.javascriptDialogOpening'')])
      else if text = ''{\"method\":\"Inspector.detached\",\"sessionId\":\"S\"}'' then
        Some (Dict [(''method'', String ''Inspector.detached''), (''sessionId'', String ''S'')])
      else if text = ''{\"id\":1,\"result\":{}}'' then
        Some (Dict [(''id'', Integer 1), (''result'', Dict [])])
      else if text = ''{\"id\":2,\"result\":{}}'' then
        Some (Dict [(''id'', Integer 2), (''result'', Dict [])])
      else if text = ''{\"id\":3,\"result\":{}}'' then
        Some (Dict [(''id'', Integer 3), (''result'', Dict [])])
      else if text = bidi_frame ''11'' then
        Some (Dict [(''method'', String ''Runtime.bindingCalled''),
                    (''params'', Dict [(''name'', String ''sendBidiResponse''),
                                       (''payload'', String ''{\"id\":11}'')])])
      else if text = bidi_frame ''-1'' then
        Some (Dict [(''method'', String ''Runtime.bindingCalled''),
                    (''params'', Dict [(''name'', String ''sendBidiResponse''),
                                       (''payload'', String ''{\"id\":-1}'')])])
      else if text = ''{\"id\":11}'' then Some (Dict [(''id'', Integer 11)])
      else if text = ''{\"id\":-1}'' then Some (Dict [(''id'', Integer (- 1))])
      else None)"

definition example_writer :: json_writer where
  "example_writer v =
     (if v = Dict [(''id'', Integer 11)] then ''{\"id\":11}''
      else if v = Dict [(''id'', Integer (- 1))] then ''{\"id\":-1}''
      else if v = String ''{\"id\":11}'' then
        ''\"{'' @ backslash @ ''\"id'' @ backslash @ ''\":11}\"''
      else if v = String ''{\"id\":-1}'' then
        ''\"{'' @ backslash @ ''\"id'' @ backslash @ ''\":-1}\"''
      else if v = Dict [(''id'', Integer 2), (''method'', String ''Inspector.enable''),
                        (''params'',
                         Dict [(''purpose'', String ''detect if alert blocked any cmds'')])] then
        ''{\"id\":2,\"method\":\"Inspector.enable\",\"params\":{\"purpose\":\"detect if alert blocked any cmds\"}}''
      else ''{}'')"

record example_ext =
  inbox :: "string list"
  outbox :: "string list"
  dialog_text :: "string option"
  calls :: "(string \<times> listener_ptr) list"

definition example_listener :: "string \<Rightarrow> listener_ptr \<Rightarrow> example_ext script" where
  "example_listener what listener =
     Get (\<lambda>e. Put (e\<lparr>calls := calls e @ [(what, listener)]\<rparr>)
                 (Return (if listener = 0
                          then Status kUnknownError (Some ''listener failed'')
                          else Status kOk None)))"

definition example_env :: "example_ext env" where
  "example_env =
     \<lparr>JSONReader_Read = example_reader,
      SerializeAsJson = (\<lambda>v. (Status kOk None, example_writer v)),
      FormatSeconds = (\<lambda>t. ''600.000''),
      socket_IsConnected = (\<lambda>s e. True),
      socket_Send = (\<lambda>s m e. (True, e\<lparr>outbox := outbox e @ [m]\<rparr>)),
      socket_ReceiveNextMessage =
        (\<lambda>s t e. case inbox e of
                   [] \<Rightarrow> ((ws_kTimeout, []), e)
                 | m # ms \<Rightarrow> ((ws_kOk, m), e\<lparr>inbox := ms\<rparr>)),
      GetDialogMessage =
        (\<lambda>owner e. case dialog_text e of
                      None \<Rightarrow> (Status kUnknownError (Some ''no such alert''), [])
                    | Some t \<Rightarrow> (Status kOk None, t)),
      OnConnected = (\<lambda>l c. example_listener ''OnConnected'' l),
      OnEvent = (\<lambda>l c m p. example_listener ''OnEvent'' l),
      OnCommandSuccess = (\<lambda>l c m r t. example_listener ''OnCommandSuccess'' l)\<rparr>"

definition new_client :: "string \<Rightarrow> string \<Rightarrow> DevToolsClientImpl" where
  "new_client i session =
     \<lparr>m_socket = None, m_owner = None, m_session_id = session, m_parent = None,
      m_children = [], m_crashed = False, m_detached = False, m_id = i,
      m_parser_func = ParseInspectorMessage example_reader example_writer,
      m_listeners = [], m_unnotified_connect_listeners = [],
      m_unnotified_event_listeners = [], m_unnotified_event = None,
      m_unnotified_cmd_response_listeners = [], m_unnotified_cmd_response_info = None,
      m_response_info_map = [], m_next_id = 1, m_stack_count = 0,
      m_is_remote_end_configured = False, m_is_main_page = False\<rparr>"

text \<open>
  The browser session \<open>0\<close> owns the socket; the page session \<open>1\<close> has the session
  id \<open>S\<close> and is attached to it.
\<close>

definition example_world :: "string list \<Rightarrow> example_ext world" where
  "example_world frames =
     \<lparr>clients =
        (\<lambda>c. if c = 0 then
                (new_client ''browser'' [])
                  \<lparr>m_socket := Some 0, m_owner := Some 0, m_children := [(''S'', 1)]\<rparr>
              else (new_client ''page'' ''S'')\<lparr>m_parent := Some 0\<rparr>),
      heap = [],
      ext = \<lparr>inbox = frames, outbox = [], dialog_text = Some ''hello'', calls = []\<rparr>\<rparr>"

text \<open>The same world after \<open>Page.navigate\<close> was sent with id 1 and is waiting in slot 0.\<close>

definition waiting_world :: "string list \<Rightarrow> example_ext world" where
  "waiting_world frames =
     update_client 0
       (\<lambda>c. c\<lparr>m_response_info_map := [(1, 0)], m_next_id := 2\<rparr>)
       ((example_world frames)\<lparr>heap := [ResponseInfo_new ''Page.navigate'']\<rparr>)"

text \<open>The waiting world with the listeners 0 and 1 registered on the browser session.\<close>

definition listening_world :: "string list \<Rightarrow> example_ext world" where
  "listening_world frames =
     update_client 0 (\<lambda>c. c\<lparr>m_listeners := [0, 1]\<rparr>) (waiting_world frames)"

definition fuel3 :: nat where
  "fuel3 = Suc (Suc (Suc 0))"

definition dialog_event :: InspectorEvent where
  "dialog_event = \<lparr>ev_method = ''Page.javascriptDialogOpening'', ev_params = Dict []\<rparr>"




text \<open>A command that waits while the dialog opens.\<close>

definition blocked_run :: "((Status \<times> Value option) \<times> example_ext world) option" where
  "blocked_run =
     SendCommandInternal fuel3 example_env (nested_send fuel3 example_env) 0 ''Page.navigate'' []
       True True True 0 None
       (example_world [''{\"method\":\"Page.javascriptDialogOpening\"}'',
                       ''{\"id\":2,\"result\":{}}''])"





text \<open>The worlds \<open>ProcessEvent\<close> passes through on the dialog event.\<close>

definition queued_world :: "example_ext world" where
  "queued_world =
     update_client 0
       (\<lambda>c. c\<lparr>m_unnotified_event_listeners := m_listeners c,
              m_unnotified_event := Some dialog_event\<rparr>)
       (waiting_world [''{\"id\":2,\"result\":{}}''])"

definition round_trip_world :: "example_ext world" where
  "round_trip_world =
     snd (the (SendCommand (nested_send fuel3 example_env) 0 ''Inspector.enable''
                 (Set [] ''purpose'' (String ''detect if alert blocked any cmds''))
                 (update_client 0 (\<lambda>c. c\<lparr>m_unnotified_event := None\<rparr>) queued_world)))"

text \<open>The world after a round trip that got no answer.\<close>

definition timed_out_world :: "example_ext world" where
  "timed_out_world =
     snd (the (SendCommand (nested_send fuel3 example_env) 0 ''Inspector.enable''
                 (Set [] ''purpose'' (String ''detect if alert blocked any cmds''))
                 (update_client 0
                    (\<lambda>c. c\<lparr>m_unnotified_event_listeners := [], m_unnotified_event := None\<rparr>)
                    (waiting_world []))))"

text \<open>An event for the page session that ends with an error.\<close>

definition detached_frame :: string where
  "detached_frame = ''{\"method\":\"Inspector.detached\",\"sessionId\":\"S\"}''"

definition detached_event :: InspectorEvent where
  "detached_event = \<lparr>ev_method = ''Inspector.detached'', ev_params = Dict []\<rparr>"

definition detached_world :: "example_ext world" where
  "detached_world =
     snd (the (ProcessEvent fuel3 example_env (nested_send fuel3 example_env) 1 detached_event
                 (example_world [])))"

text \<open>A response for a session that is gone, sent without a session id.\<close>

definition detached_session_response :: InspectorCommandResponse where
  "detached_session_response =
     \<lparr>rsp_id = 9,
      rsp_error = ''{\"code\":-32001,\"message\":\"Session with given id not found.\"}'',
      rsp_result = None\<rparr>"

text \<open>Worlds in which the listeners 0 and 1 are queued for a notification.\<close>

definition notifying_world :: "example_ext world" where
  "notifying_world =
     update_client 0
       (\<lambda>c. c\<lparr>m_unnotified_event_listeners := [0, 1], m_unnotified_event := Some dialog_event\<rparr>)
       (listening_world [])"

definition failed_event_world :: "example_ext world" where
  "failed_event_world =
     snd (the (EnsureListenersNotifiedOfEvent fuel3 example_env (nested_send fuel3 example_env) 0
                 notifying_world))"

definition connecting_world :: "example_ext world" where
  "connecting_world =
     update_client 0 (\<lambda>c. c\<lparr>m_unnotified_connect_listeners := [0, 1]\<rparr>) (listening_world [])"

text \<open>The JSON text of the JSON text of a BiDi command that has only an id.\<close>

definition quoted_id :: "string \<Rightarrow> string" where
  "quoted_id i = ''\"{'' @ backslash @ ''\"id'' @ backslash @ ''\":'' @ i @ ''}\"''"

lemmas model_defs =
  SendCommandAndIgnoreResponse_def SendCommandInternal_def SendCommand_def
  SendCommandWithTimeout_def AdvanceNextMessageId_def NextMessageId_def GetRootClient.simps
  ProcessNextMessage.simps SendCommandInternal_wait.simps
  EnsureListenersNotifiedOfConnect.simps EnsureListenersNotifiedOfEvent.simps
  EnsureListenersNotifiedOfCommandResponse.simps
  HandleMessage_def ProcessEvent_def ProcessCommandResponse_def
  update_client_def update_slot_def ResponseInfo_new_def Set_def
  IsError_def IsOk_def int32_def block_waiting_def
  ParseInspectorMessage_def FindKey_def FindString_def FindDict_def FindInt_def
  IsBidiMessage_def DeserializePayload_def Let_def fuel3_def

lemmas example_defs =
  example_world_def waiting_world_def listening_world_def example_env_def new_client_def
  example_reader_def example_writer_def example_listener_def dialog_event_def
  bidi_frame_def backslash_def

section \<open>Steps that keep the slots well formed\<close>

lemma slot_le_refl [simp]: "slot_le a a"
  by (simp add: slot_le_def)

lemma slot_le_trans: "slot_le a b \<Longrightarrow> slot_le b c \<Longrightarrow> slot_le a c"
  by (auto simp: slot_le_def)

lemma lifecycle_refl [simp]: "lifecycle w w"
  by (simp add: lifecycle_def)

lemma lifecycle_trans: "lifecycle a b \<Longrightarrow> lifecycle b c \<Longrightarrow> lifecycle a c"
  unfolding lifecycle_def
  by (meson le_trans less_le_trans slot_le_trans)

lemma G_refl [simp]: "G w w"
  by (simp add: G_def)

lemma G_trans: "G a b \<Longrightarrow> G b c \<Longrightarrow> G a c"
  unfolding G_def using lifecycle_trans by blast

lemma G_same_slots:
  "heap w' = heap w \<Longrightarrow>
   (\<And>c. m_response_info_map (clients w' c) = m_response_info_map (clients w c)) \<Longrightarrow> G w w'"
  by (simp add: G_def lifecycle_def wf_slots_def)

lemma G_ext [simp]: "G w (w\<lparr>ext := e\<rparr>)"
  by (rule G_same_slots) simp_all

lemma G_update_client_other:
  "(\<And>c. m_response_info_map (f c) = m_response_info_map c) \<Longrightarrow> G w (update_client this f w)"
  by (rule G_same_slots) (simp_all add: update_client_def)

lemma set_delete_subset: "set (AList.delete k m) \<subseteq> set m"
  by (auto simp: AList.delete_eq)

lemma set_delete_key: "(i, r) \<in> set (AList.delete k m) \<Longrightarrow> i \<noteq> k"
  by (auto simp: AList.delete_eq)

lemma set_update_subset: "set (AList.update k v m) \<subseteq> insert (k, v) (set m)"
  by (induction m) (auto split: if_splits)

lemma erase_entries:
  "(i, r) \<in> set (m_response_info_map
      (clients (update_client this
         (\<lambda>c. c\<lparr>m_response_info_map := AList.delete k (m_response_info_map c)\<rparr>) w) c)) \<Longrightarrow>
   (i, r) \<in> set (m_response_info_map (clients w c)) \<and> (c = this \<longrightarrow> i \<noteq> k)"
  using set_delete_subset [of k "m_response_info_map (clients w this)"]
        set_delete_key [of i r k "m_response_info_map (clients w this)"]
  by (auto simp: update_client_def split: if_splits)

lemma G_erase:
  "G w (update_client this
          (\<lambda>c. c\<lparr>m_response_info_map := AList.delete k (m_response_info_map c)\<rparr>) w)"
    (is "G w ?w'")
proof -
  have heap: "heap ?w' = heap w" by (simp add: update_client_def)
  have "wf_slots ?w'" if wf: "wf_slots w"
    unfolding wf_slots_def heap
  proof (intro conjI allI impI)
    fix c c' i i' r
    assume "(i, r) \<in> set (m_response_info_map (clients ?w' c)) \<and>
            (i', r) \<in> set (m_response_info_map (clients ?w' c'))"
    then have "(i, r) \<in> set (m_response_info_map (clients w c))"
      and "(i', r) \<in> set (m_response_info_map (clients w c'))"
      using erase_entries by blast+
    with wf show "c = c'" and "i = i'" unfolding wf_slots_def by blast+
  next
    fix c i r
    assume "(i, r) \<in> set (m_response_info_map (clients ?w' c))"
    then have "(i, r) \<in> set (m_response_info_map (clients w c))"
      using erase_entries by blast
    with wf show "r < length (heap w)" and "ri_state (heap w ! r) \<noteq> kReceived"
      unfolding wf_slots_def by blast+
  qed
  then show ?thesis by (simp add: G_def lifecycle_def heap)
qed

lemma new_slot_entries:
  "(i, r) \<in> set (m_response_info_map
      (clients (update_client this
         (\<lambda>c. c\<lparr>m_response_info_map := AList.update k v (m_response_info_map c)\<rparr>) w) c)) \<Longrightarrow>
   (i, r) \<in> set (m_response_info_map (clients w c)) \<or> (c = this \<and> i = k \<and> r = v)"
  using set_update_subset [of k v "m_response_info_map (clients w this)"]
  by (auto simp: update_client_def split: if_splits)

lemma G_new_slot:
  assumes fresh: "ri_state s \<noteq> kReceived"
  shows "G w (update_client this
          (\<lambda>c. c\<lparr>m_response_info_map := AList.update k (length (heap w)) (m_response_info_map c)\<rparr>)
          (w\<lparr>heap := heap w @ [s]\<rparr>))"
    (is "G w ?w'")
proof -
  let ?n = "length (heap w)"
  have heap: "heap ?w' = heap w @ [s]" by (simp add: update_client_def)
  have entries: "(i, r) \<in> set (m_response_info_map (clients w c)) \<or> (c = this \<and> i = k \<and> r = ?n)"
    if "(i, r) \<in> set (m_response_info_map (clients ?w' c))" for c i r
    using new_slot_entries [OF that] by simp
  have "wf_slots ?w'" if wf: "wf_slots w"
  proof -
    have old: "r < ?n \<and> ri_state (heap w ! r) \<noteq> kReceived"
      if "(i, r) \<in> set (m_response_info_map (clients w c))" for c i r
      using wf that unfolding wf_slots_def by blast
    have inj: "c = c' \<and> i = i'"
      if "(i, r) \<in> set (m_response_info_map (clients w c))"
         "(i', r) \<in> set (m_response_info_map (clients w c'))" for c c' i i' r
      using wf that unfolding wf_slots_def by blast
    show ?thesis
      unfolding wf_slots_def heap
    proof (intro conjI allI impI)
      fix c c' i i' r
      assume a: "(i, r) \<in> set (m_response_info_map (clients ?w' c)) \<and>
                 (i', r) \<in> set (m_response_info_map (clients ?w' c'))"
      from a entries [of i r c] entries [of i' r c'] old inj
      show "c = c'" and "i = i'" by (metis less_irrefl)+
    next
      fix c i r
      assume a: "(i, r) \<in> set (m_response_info_map (clients ?w' c))"
      from entries [OF a] show "r < length (heap w @ [s])"
        using old by (auto simp: less_Suc_eq)
      from entries [OF a] show "ri_state ((heap w @ [s]) ! r) \<noteq> kReceived"
        using old fresh by (auto simp: nth_append)
    qed
  qed
  then show ?thesis by (simp add: G_def lifecycle_def heap nth_append)
qed

lemma G_update_slot:
  assumes le: "r < length (heap w) \<Longrightarrow>
                 slot_le (ri_state (heap w ! r)) (ri_state (f (heap w ! r)))"
    and nr: "ri_state (f (heap w ! r)) \<noteq> kReceived"
  shows "G w (update_slot r f w)"
proof -
  have st: "slot_le (ri_state (heap w ! a)) (ri_state ((heap w)[r := f (heap w ! r)] ! a))"
    if "a < length (heap w)" for a
    using that le by (cases "r = a") simp_all
  have nrec: "ri_state ((heap w)[r := f (heap w ! r)] ! a) \<noteq> kReceived"
    if "a < length (heap w)" "ri_state (heap w ! a) \<noteq> kReceived" for a
    using that nr by (cases "r = a") simp_all
  show ?thesis
    unfolding G_def lifecycle_def wf_slots_def update_slot_def
    using st nrec by auto
qed

lemma G_ignore_new:
  assumes g: "G w w5"
    and new: "length (heap w) \<le> r"
  shows "G w (update_slot r (\<lambda>i. i\<lparr>ri_state := kIgnored\<rparr>) w5)"
proof -
  let ?h = "(heap w5)[r := (heap w5 ! r)\<lparr>ri_state := kIgnored\<rparr>]"
  from g have lc: "lifecycle w w5" and wf: "wf_slots w \<Longrightarrow> wf_slots w5"
    by (simp_all add: G_def)
  have old: "?h ! a = heap w5 ! a" if "a < length (heap w)" for a
    using that new by simp
  have "lifecycle w (update_slot r (\<lambda>i. i\<lparr>ri_state := kIgnored\<rparr>) w5)"
    using lc old by (simp add: lifecycle_def update_slot_def)
  moreover have nrec: "ri_state (?h ! a) \<noteq> kReceived"
    if "a < length (heap w5)" "ri_state (heap w5 ! a) \<noteq> kReceived" for a
    using that by (cases "r = a") simp_all
  have "wf_slots (update_slot r (\<lambda>i. i\<lparr>ri_state := kIgnored\<rparr>) w5)" if "wf_slots w5"
    using that nrec unfolding wf_slots_def update_slot_def by auto
  ultimately show ?thesis using wf by (simp add: G_def)
qed

lemma G_receive:
  assumes found: "map_of (m_response_info_map (clients w this)) k = Some r"
    and rec: "\<And>i. ri_state (f i) = kReceived"
    and ni: "ri_state (heap w ! r) \<noteq> kIgnored"
  shows "G w (update_slot r f
            (update_client this
               (\<lambda>c. c\<lparr>m_response_info_map := AList.delete k (m_response_info_map c)\<rparr>) w))"
    (is "G w ?w'")
proof -
  let ?w1 = "update_client this
               (\<lambda>c. c\<lparr>m_response_info_map := AList.delete k (m_response_info_map c)\<rparr>) w"
  have heap: "heap ?w' = (heap w)[r := f (heap w ! r)]"
    by (simp add: update_slot_def update_client_def)
  have cl: "clients ?w' = clients ?w1" by (simp add: update_slot_def)
  have kr: "(k, r) \<in> set (m_response_info_map (clients w this))"
    using found by (rule map_of_SomeD)
  have le: "slot_le (ri_state (heap w ! a)) (ri_state ((heap w)[r := f (heap w ! r)] ! a))"
    if "a < length (heap w)" for a
  proof (cases "r = a")
    case True
    with that ni rec show ?thesis
      by (cases "ri_state (heap w ! r)") (simp_all add: slot_le_def)
  next
    case False
    then show ?thesis by simp
  qed
  have "wf_slots ?w'" if wf: "wf_slots w"
  proof -
    have old: "a < length (heap w) \<and> ri_state (heap w ! a) \<noteq> kReceived"
      if "(i, a) \<in> set (m_response_info_map (clients w c))" for c i a
      using wf that unfolding wf_slots_def by blast
    have inj: "c = c' \<and> i = i'"
      if "(i, a) \<in> set (m_response_info_map (clients w c))"
         "(i', a) \<in> set (m_response_info_map (clients w c'))" for c c' i i' a
      using wf that unfolding wf_slots_def by blast
    show ?thesis
      unfolding wf_slots_def heap cl
    proof (intro conjI allI impI)
      fix c c' i i' a
      assume "(i, a) \<in> set (m_response_info_map (clients ?w1 c)) \<and>
              (i', a) \<in> set (m_response_info_map (clients ?w1 c'))"
      then have "(i, a) \<in> set (m_response_info_map (clients w c))"
        and "(i', a) \<in> set (m_response_info_map (clients w c'))"
        using erase_entries by blast+
      then show "c = c'" and "i = i'" using inj by blast+
    next
      fix c i a
      assume a: "(i, a) \<in> set (m_response_info_map (clients ?w1 c))"
      from erase_entries [OF a]
      have in_w: "(i, a) \<in> set (m_response_info_map (clients w c))"
        and key: "c = this \<longrightarrow> i \<noteq> k" by blast+
      from old [OF in_w] show "a < length ((heap w)[r := f (heap w ! r)])" by simp
      have "a \<noteq> r"
      proof
        assume "a = r"
        with in_w kr inj have "c = this \<and> i = k" by blast
        with key show False by blast
      qed
      with old [OF in_w] show "ri_state ((heap w)[r := f (heap w ! r)] ! a) \<noteq> kReceived"
        by simp
    qed
  qed
  then show ?thesis using le by (simp add: G_def lifecycle_def heap)
qed

lemma block_waiting_length [simp]: "length (block_waiting max_id es h) = length h"
proof -
  have "length (fold (\<lambda>(first, second) h.
             if first > max_id then h
             else if ri_state (h ! second) = kWaiting
               then h[second := (h ! second)\<lparr>ri_state := kBlocked\<rparr>]
               else h) es h) = length h"
    by (induction es arbitrary: h) (auto split: prod.splits)
  then show ?thesis by (simp add: block_waiting_def)
qed

lemma block_waiting_Nil [simp]: "block_waiting max_id [] h = h"
  by (simp add: block_waiting_def)

lemma block_waiting_Cons:
  "block_waiting max_id ((first, second) # es) h =
     block_waiting max_id es
       (if first > max_id then h
        else if ri_state (h ! second) = kWaiting
          then h[second := (h ! second)\<lparr>ri_state := kBlocked\<rparr>]
          else h)"
  by (simp add: block_waiting_def)

lemma block_waiting_state:
  "r < length h \<Longrightarrow>
   ri_state (block_waiting max_id es h ! r) =
     (if ri_state (h ! r) = kWaiting \<and> (\<exists>first. first \<le> max_id \<and> (first, r) \<in> set es)
      then kBlocked else ri_state (h ! r))"
proof (induction es arbitrary: h)
  case Nil
  then show ?case by simp
next
  case (Cons a es)
  obtain first second where a: "a = (first, second)" by (cases a)
  consider (skip) "first > max_id"
    | (mark) "\<not> first > max_id" "ri_state (h ! second) = kWaiting"
    | (keep) "\<not> first > max_id" "ri_state (h ! second) \<noteq> kWaiting"
    by blast
  then show ?case
  proof cases
    case skip
    then have "block_waiting max_id (a # es) h = block_waiting max_id es h"
      by (simp add: a block_waiting_Cons)
    moreover have "(\<exists>f. f \<le> max_id \<and> (f, r) \<in> set (a # es)) = (\<exists>f. f \<le> max_id \<and> (f, r) \<in> set es)"
      using skip a by auto
    ultimately show ?thesis using Cons.IH [OF Cons.prems] by simp
  next
    case mark
    let ?h = "h[second := (h ! second)\<lparr>ri_state := kBlocked\<rparr>]"
    have eq: "block_waiting max_id (a # es) h = block_waiting max_id es ?h"
      using mark by (simp add: a block_waiting_Cons)
    have len: "r < length ?h" using Cons.prems by simp
    show ?thesis
    proof (cases "r = second")
      case True
      then have "ri_state (?h ! r) = kBlocked" using Cons.prems by simp
      then have "ri_state (block_waiting max_id es ?h ! r) = kBlocked"
        using Cons.IH [OF len] by simp
      moreover have "\<exists>f. f \<le> max_id \<and> (f, r) \<in> set (a # es)"
        using True mark a by (intro exI [of _ first]) simp
      ultimately show ?thesis using eq mark True by simp
    next
      case False
      then have "?h ! r = h ! r" by simp
      moreover have "(\<exists>f. f \<le> max_id \<and> (f, r) \<in> set (a # es)) = (\<exists>f. f \<le> max_id \<and> (f, r) \<in> set es)"
        using False a by auto
      ultimately show ?thesis using eq Cons.IH [OF len] by simp
    qed
  next
    case keep
    then have eq: "block_waiting max_id (a # es) h = block_waiting max_id es h"
      by (simp add: a block_waiting_Cons)
    show ?thesis
    proof (cases "r = second")
      case True
      then have "ri_state (h ! r) \<noteq> kWaiting" using keep by simp
      then show ?thesis using eq Cons.IH [OF Cons.prems] by simp
    next
      case False
      then have "(\<exists>f. f \<le> max_id \<and> (f, r) \<in> set (a # es)) = (\<exists>f. f \<le> max_id \<and> (f, r) \<in> set es)"
        using a by auto
      then show ?thesis using eq Cons.IH [OF Cons.prems] by simp
    qed
  qed
qed

lemma G_block_waiting: "G w (w\<lparr>heap := block_waiting max_id es (heap w)\<rparr>)"
  unfolding G_def lifecycle_def wf_slots_def
  by (auto simp: block_waiting_state slot_le_def)

lemma run_script_G:
  assumes api: "\<And>a w r w'. api a w = Some (r, w') \<Longrightarrow> G w w'"
  shows "run_script api s w = Some (st, w') \<Longrightarrow> G w w'"
proof (induction s arbitrary: w)
  case (Return x)
  then show ?case by simp
next
  case (Call a k)
  from Call.prems obtain status res w1 where
    a: "api a w = Some ((status, res), w1)" and
    r: "run_script api (k status res) w1 = Some (st, w')"
    by (auto split: option.splits)
  have "G w1 w'"
    by (rule Call.IH [OF _ _ r]) auto
  with api [OF a] show ?case by (rule G_trans)
next
  case (Get k)
  then show ?case by auto
next
  case (Put e k)
  then show ?case by (auto intro: G_trans [OF G_ext])
qed

lemma send_okD:
  "send_ok send \<Longrightarrow> send this method params result expect wait cid timeout w = Some (r, w') \<Longrightarrow>
   G w w'"
  unfolding send_ok_def pres_def by blast

lemma SendCommandWithTimeout_G:
  "send_ok send \<Longrightarrow> SendCommandWithTimeout send this method params timeout w = Some (r, w') \<Longrightarrow>
   G w w'"
  unfolding SendCommandWithTimeout_def
  by (auto split: option.splits dest: send_okD)

lemma SendCommand_G:
  "send_ok send \<Longrightarrow> SendCommand send this method params w = Some (r, w') \<Longrightarrow> G w w'"
  unfolding SendCommand_def by (rule SendCommandWithTimeout_G)

lemma SendCommandFromWebSocket_G:
  "send_ok send \<Longrightarrow> SendCommandFromWebSocket send this method params i w = Some (r, w') \<Longrightarrow>
   G w w'"
  unfolding SendCommandFromWebSocket_def by (rule send_okD)

lemma SendAsyncCommand_G:
  "send_ok send \<Longrightarrow> SendAsyncCommand send this method params w = Some (r, w') \<Longrightarrow> G w w'"
  unfolding SendAsyncCommand_def
  by (auto split: option.splits dest: send_okD)

lemma SendCommandAndGetResultWithTimeout_G:
  "send_ok send \<Longrightarrow>
   SendCommandAndGetResultWithTimeout send this method params timeout w = Some (r, w') \<Longrightarrow>
   G w w'"
  unfolding SendCommandAndGetResultWithTimeout_def
  by (auto split: option.splits if_splits Value.splits dest: send_okD)

lemma SendCommandAndGetResult_G:
  "send_ok send \<Longrightarrow> SendCommandAndGetResult send this method params w = Some (r, w') \<Longrightarrow>
   G w w'"
  unfolding SendCommandAndGetResult_def by (rule SendCommandAndGetResultWithTimeout_G)

lemma SendCommandAndIgnoreResponse_G:
  "send_ok send \<Longrightarrow> SendCommandAndIgnoreResponse send this method params w = Some (r, w') \<Longrightarrow>
   G w w'"
  unfolding SendCommandAndIgnoreResponse_def by (rule send_okD)

lemma PostBidiCommandInternal_G:
  "send_ok send \<Longrightarrow> PostBidiCommandInternal env send this c command w = Some (r, w') \<Longrightarrow>
   G w w'"
  unfolding PostBidiCommandInternal_def Let_def
  by (auto split: option.splits if_splits prod.splits dest: SendCommandAndIgnoreResponse_G)

lemma call_api_G:
  "send_ok send \<Longrightarrow> call_api env send a w = Some (r, w') \<Longrightarrow> G w w'"
  by (cases a)
     (auto simp: PostBidiCommand_def
           dest: SendCommand_G SendCommandWithTimeout_G SendAsyncCommand_G
                 SendCommandAndGetResult_G SendCommandAndGetResultWithTimeout_G
                 SendCommandAndIgnoreResponse_G SendCommandFromWebSocket_G
                 PostBidiCommandInternal_G)

lemma listener_G:
  "send_ok send \<Longrightarrow> run_script (call_api env send) s w = Some (st, w') \<Longrightarrow> G w w'"
  by (rule run_script_G [where api = "call_api env send"]) (auto dest: call_api_G)

lemma EnsureListenersNotifiedOfConnect_G:
  "send_ok send \<Longrightarrow> EnsureListenersNotifiedOfConnect fuel env send this w = Some (st, w') \<Longrightarrow>
   G w w'"
proof (induction fuel arbitrary: w)
  case 0
  then show ?case
    by (auto simp: EnsureListenersNotifiedOfConnect.simps split: list.splits)
next
  case (Suc n)
  show ?case
  proof (cases "m_unnotified_connect_listeners (clients w this)")
    case Nil
    with Suc.prems show ?thesis
      by (simp add: EnsureListenersNotifiedOfConnect.simps)
  next
    case (Cons listener rest)
    let ?w0 = "update_client this (\<lambda>c. c\<lparr>m_unnotified_connect_listeners := rest\<rparr>) w"
    from Suc.prems(2) Cons obtain status w1 where
      run: "run_script (call_api env send) (OnConnected env listener this) ?w0 = Some (status, w1)"
      and rest: "if IsError status then (st, w') = (status, w1)
                 else EnsureListenersNotifiedOfConnect n env send this w1 = Some (st, w')"
      by (auto simp: EnsureListenersNotifiedOfConnect.simps [of "Suc n"]
               split: option.splits if_splits)
    have g0: "G w ?w0" by (rule G_update_client_other) simp
    have g1: "G ?w0 w1" by (rule listener_G [OF Suc.prems(1) run])
    have g2: "G w1 w'"
      using rest Suc.IH [OF Suc.prems(1)] by (auto split: if_splits)
    from g0 g1 g2 show ?thesis by (blast intro: G_trans)
  qed
qed

lemma EnsureListenersNotifiedOfEvent_G:
  "send_ok send \<Longrightarrow> EnsureListenersNotifiedOfEvent fuel env send this w = Some (st, w') \<Longrightarrow>
   G w w'"
proof (induction fuel arbitrary: w)
  case 0
  then show ?case
    by (auto simp: EnsureListenersNotifiedOfEvent.simps split: list.splits)
next
  case (Suc n)
  show ?case
  proof (cases "m_unnotified_event_listeners (clients w this)")
    case Nil
    with Suc.prems show ?thesis
      by (simp add: EnsureListenersNotifiedOfEvent.simps)
  next
    case (Cons listener rest)
    let ?w0 = "update_client this (\<lambda>c. c\<lparr>m_unnotified_event_listeners := rest\<rparr>) w"
    show ?thesis
    proof (cases "m_unnotified_event (clients w this)")
      case None
      with Suc.prems(2) Cons show ?thesis
        by (simp add: EnsureListenersNotifiedOfEvent.simps [of "Suc n"])
    next
      case (Some event)
      show ?thesis
      proof (cases "run_script (call_api env send)
                      (OnEvent env listener this (ev_method event) (ev_params event)) ?w0")
        case None
        with Suc.prems(2) Cons Some show ?thesis
          by (simp add: EnsureListenersNotifiedOfEvent.simps [of "Suc n"])
      next
        case run: (Some p)
        obtain status w1 where p: "p = (status, w1)" by (cases p)
        from Suc.prems(2) Cons Some run p
        have rest: "(if IsError status
                     then Some (status,
                            update_client this (\<lambda>c. c\<lparr>m_unnotified_event_listeners := []\<rparr>) w1)
                     else EnsureListenersNotifiedOfEvent n env send this w1) = Some (st, w')"
          by (simp add: EnsureListenersNotifiedOfEvent.simps [of "Suc n"])
        have g0: "G w ?w0" by (rule G_update_client_other) simp
        have g1: "G ?w0 w1" using run p by (auto intro: listener_G [OF Suc.prems(1)])
        have g2: "G w1 w'"
        proof (cases "IsError status")
          case True
          with rest have "w' = update_client this (\<lambda>c. c\<lparr>m_unnotified_event_listeners := []\<rparr>) w1"
            by simp
          then show ?thesis by (simp add: G_update_client_other)
        next
          case False
          with rest Suc.IH [OF Suc.prems(1)] show ?thesis by simp
        qed
        from g0 g1 g2 show ?thesis by (blast intro: G_trans)
      qed
    qed
  qed
qed

lemma EnsureListenersNotifiedOfCommandResponse_G:
  "send_ok send \<Longrightarrow>
   EnsureListenersNotifiedOfCommandResponse fuel env send this w = Some (st, w') \<Longrightarrow> G w w'"
proof (induction fuel arbitrary: w)
  case 0
  then show ?case
    by (auto simp: EnsureListenersNotifiedOfCommandResponse.simps split: list.splits)
next
  case (Suc n)
  show ?case
  proof (cases "m_unnotified_cmd_response_listeners (clients w this)")
    case Nil
    with Suc.prems show ?thesis
      by (simp add: EnsureListenersNotifiedOfCommandResponse.simps)
  next
    case (Cons listener rest)
    let ?w0 = "update_client this (\<lambda>c. c\<lparr>m_unnotified_cmd_response_listeners := rest\<rparr>) w"
    show ?thesis
    proof (cases "m_unnotified_cmd_response_info (clients w this)")
      case None
      with Suc.prems(2) Cons show ?thesis
        by (simp add: EnsureListenersNotifiedOfCommandResponse.simps [of "Suc n"])
    next
      case (Some info)
      let ?s = "OnCommandSuccess env listener this (ri_method (heap w ! info))
                  (rsp_result (ri_response (heap w ! info))) (ri_command_timeout (heap w ! info))"
      show ?thesis
      proof (cases "run_script (call_api env send) ?s ?w0")
        case None
        with Suc.prems(2) Cons Some show ?thesis
          by (simp add: EnsureListenersNotifiedOfCommandResponse.simps [of "Suc n"])
      next
        case run: (Some p)
        obtain status w1 where p: "p = (status, w1)" by (cases p)
        from Suc.prems(2) Cons Some run p
        have rest: "(if IsError status then Some (status, w1)
                     else EnsureListenersNotifiedOfCommandResponse n env send this w1) =
                    Some (st, w')"
          by (simp add: EnsureListenersNotifiedOfCommandResponse.simps [of "Suc n"])
        have g0: "G w ?w0" by (rule G_update_client_other) simp
        have g1: "G ?w0 w1" using run p by (auto intro: listener_G [OF Suc.prems(1)])
        have g2: "G w1 w'"
          using rest Suc.IH [OF Suc.prems(1)] by (auto split: if_splits)
        from g0 g1 g2 show ?thesis by (blast intro: G_trans)
      qed
    qed
  qed
qed

lemma ProcessEvent_G:
  assumes ok: "send_ok send"
    and run: "ProcessEvent fuel env send this event w = Some (st, w')"
  shows "G w w'"
proof -
  let ?w0 = "update_client this
               (\<lambda>c. c\<lparr>m_unnotified_event_listeners := m_listeners c,
                      m_unnotified_event := Some event\<rparr>) w"
  from run obtain status w1 where
    ens: "EnsureListenersNotifiedOfEvent fuel env send this ?w0 = Some (status, w1)"
    by (auto simp: ProcessEvent_def split: option.splits)
  let ?w2 = "update_client this (\<lambda>c. c\<lparr>m_unnotified_event := None\<rparr>) w1"
  have g0: "G w ?w0" by (rule G_update_client_other) simp
  have g1: "G ?w0 w1" by (rule EnsureListenersNotifiedOfEvent_G [OF ok ens])
  have g2: "G w1 ?w2" by (rule G_update_client_other) simp
  have g02: "G w ?w2" using g0 g1 g2 by (blast intro: G_trans)
  have g3: "G ?w2 w'"
    using run ens ok
    by (auto simp: ProcessEvent_def Let_def G_update_client_other
             split: if_splits option.splits
             dest!: SendCommand_G
             intro: G_trans [OF _ G_block_waiting])
  from g02 g3 show ?thesis by (rule G_trans)
qed

lemma ProcessCommandResponse_G:
  assumes ok: "send_ok send"
    and run: "ProcessCommandResponse fuel env send this response w = Some (st, w')"
  shows "G w w'"
proof (cases "map_of (m_response_info_map (clients w this)) (rsp_id response)")
  case None
  with run have "w' = w"
    by (auto simp: ProcessCommandResponse_def split: if_splits)
  then show ?thesis by simp
next
  case (Some response_info)
  let ?w1 = "update_client this
               (\<lambda>c. c\<lparr>m_response_info_map :=
                        AList.delete (rsp_id response) (m_response_info_map c)\<rparr>) w"
  let ?f = "\<lambda>i. i\<lparr>ri_state := kReceived,
                   ri_response :=
                     \<lparr>rsp_id = rsp_id response, rsp_error = rsp_error response,
                      rsp_result = (case rsp_result response of
                                      Some r \<Rightarrow> Some r
                                    | None \<Rightarrow> rsp_result (ri_response i))\<rparr>\<rparr>"
  let ?w2 = "if ri_state (heap ?w1 ! response_info) \<noteq> kIgnored
             then update_slot response_info ?f ?w1 else ?w1"
  have g12: "G w ?w2"
  proof (cases "ri_state (heap ?w1 ! response_info) \<noteq> kIgnored")
    case True
    then have "ri_state (heap w ! response_info) \<noteq> kIgnored"
      by (simp add: update_client_def)
    then have "G w (update_slot response_info ?f ?w1)"
      by (intro G_receive [OF Some]) simp_all
    with True show ?thesis by simp
  next
    case False
    then show ?thesis by (simp add: G_erase)
  qed
  show ?thesis
  proof (cases "rsp_result response")
    case None
    with run Some have "w' = ?w2"
      by (simp add: ProcessCommandResponse_def Let_def)
    with g12 show ?thesis by simp
  next
    case result: (Some r)
    let ?w3 = "update_client this
                 (\<lambda>c. c\<lparr>m_unnotified_cmd_response_listeners := m_listeners c,
                        m_unnotified_cmd_response_info := Some response_info\<rparr>) ?w2"
    show ?thesis
    proof (cases "EnsureListenersNotifiedOfCommandResponse fuel env send this ?w3")
      case None
      with run Some result show ?thesis
        by (simp add: ProcessCommandResponse_def Let_def)
    next
      case ens: (Some p)
      obtain status w4 where p: "p = (status, w4)" by (cases p)
      from run Some result ens p
      have w': "w' = update_client this (\<lambda>c. c\<lparr>m_unnotified_cmd_response_info := None\<rparr>) w4"
        by (auto simp: ProcessCommandResponse_def Let_def split: if_splits)
      have g3: "G ?w2 ?w3" by (rule G_update_client_other) simp
      have g4: "G ?w3 w4"
        using ens p by (auto intro: EnsureListenersNotifiedOfCommandResponse_G [OF ok])
      have g5: "G w4 w'" unfolding w' by (rule G_update_client_other) simp
      from g12 g3 g4 g5 show ?thesis by (blast intro: G_trans)
    qed
  qed
qed

lemma HandleMessage_G:
  assumes ok: "send_ok send"
    and run: "HandleMessage fuel env send this expected_id message caller w = Some (st, w')"
  shows "G w w'"
proof (cases "m_parser_func (clients w this) message expected_id")
  case None
  with run show ?thesis by (simp add: HandleMessage_def)
next
  case (Some p)
  obtain session_id msg where p: "p = (session_id, msg)" by (cases p)
  show ?thesis
  proof (cases "if session_id \<noteq> m_session_id (clients w this)
                then map_of (m_children (clients w this)) session_id else Some this")
    case None
    with run Some p show ?thesis by (simp add: HandleMessage_def)
  next
    case client: (Some client)
    show ?thesis
    proof (cases msg)
      case (kEventMessageType event)
      with run Some p client obtain status where
        "ProcessEvent fuel env send client event w = Some (status, w')"
        by (auto simp: HandleMessage_def split: option.splits if_splits)
      then show ?thesis by (rule ProcessEvent_G [OF ok])
    next
      case (kCommandResponseMessageType response)
      with run Some p client obtain status where
        "ProcessCommandResponse fuel env send client response w = Some (status, w')"
        by (auto simp: HandleMessage_def split: option.splits if_splits)
      then show ?thesis by (rule ProcessCommandResponse_G [OF ok])
    qed
  qed
qed

lemma HandleMessage_G_ext:
  assumes ok: "send_ok send"
    and run: "HandleMessage fuel env send this expected_id message caller (w\<lparr>ext := e\<rparr>) =
                Some (st, w')"
  shows "G w w'"
  using G_ext HandleMessage_G [OF ok run] by (rule G_trans)

lemma ProcessNextMessage_G:
  assumes ok: "send_ok send"
  shows "ProcessNextMessage fuel env send this expected_id log_timeout timeout caller w =
           Some (st, w') \<Longrightarrow> G w w'"
proof (induction fuel arbitrary: this expected_id w st w')
  case (0 this expected_id w st w')
  note run = 0
  let ?w0 = "update_client this (\<lambda>c. c\<lparr>m_stack_count := int32 (m_stack_count c + 1)\<rparr>) w"
  let ?dec = "update_client this (\<lambda>c. c\<lparr>m_stack_count := int32 (m_stack_count c - 1)\<rparr>)"
  have g0: "G w ?w0" by (rule G_update_client_other) simp
  have dec: "G v (?dec v)" for v :: "'a world" by (rule G_update_client_other) simp
  show ?case
  proof (cases "EnsureListenersNotifiedOfConnect 0 env send this ?w0")
    case None
    with run show ?thesis by (simp add: ProcessNextMessage.simps [of 0])
  next
    case e1: (Some p1)
    obtain status1 w1 where p1: "p1 = (status1, w1)" by (cases p1)
    have g1: "G ?w0 w1" using e1 p1 by (auto intro: EnsureListenersNotifiedOfConnect_G [OF ok])
    show ?thesis
    proof (cases "IsError status1")
      case True
      with run e1 p1 have "w' = ?dec w1" by (auto simp: ProcessNextMessage.simps [of 0])
      with g0 g1 dec [of w1] show ?thesis by (blast intro: G_trans)
    next
      case ne1: False
      show ?thesis
      proof (cases "EnsureListenersNotifiedOfEvent 0 env send this w1")
        case None
        with run e1 p1 ne1 show ?thesis by (simp add: ProcessNextMessage.simps [of 0])
      next
        case e2: (Some p2)
        obtain status2 w2 where p2: "p2 = (status2, w2)" by (cases p2)
        have g2: "G w1 w2" using e2 p2 by (auto intro: EnsureListenersNotifiedOfEvent_G [OF ok])
        show ?thesis
        proof (cases "IsError status2")
          case True
          with run e1 p1 ne1 e2 p2 have "w' = ?dec w2"
            by (auto simp: ProcessNextMessage.simps [of 0])
          with g0 g1 g2 dec [of w2] show ?thesis by (blast intro: G_trans)
        next
          case ne2: False
          show ?thesis
          proof (cases "EnsureListenersNotifiedOfCommandResponse 0 env send this w2")
            case None
            with run e1 p1 ne1 e2 p2 ne2 show ?thesis
              by (simp add: ProcessNextMessage.simps [of 0])
          next
            case e3: (Some p3)
            obtain status3 w3 where p3: "p3 = (status3, w3)" by (cases p3)
            have g3: "G w2 w3"
              using e3 p3 by (auto intro: EnsureListenersNotifiedOfCommandResponse_G [OF ok])
            have g03: "G w w3" using g0 g1 g2 g3 by (blast intro: G_trans)
            from run e1 p1 ne1 e2 p2 ne2 e3 p3
            have "w' \<in> ?dec ` {v. G w3 v}"
              by (auto simp: ProcessNextMessage.simps [of 0]
                       split: if_splits option.splits prod.splits SyncWebSocket_StatusCode.splits
                       intro: HandleMessage_G_ext [OF ok])
            with g03 dec show ?thesis by (blast intro: G_trans)
          qed
        qed
      qed
    qed
  qed
next
  case (Suc n this expected_id w st w')
  note run = Suc.prems
  let ?w0 = "update_client this (\<lambda>c. c\<lparr>m_stack_count := int32 (m_stack_count c + 1)\<rparr>) w"
  let ?dec = "update_client this (\<lambda>c. c\<lparr>m_stack_count := int32 (m_stack_count c - 1)\<rparr>)"
  have g0: "G w ?w0" by (rule G_update_client_other) simp
  have dec: "G v (?dec v)" for v :: "'a world" by (rule G_update_client_other) simp
  show ?case
  proof (cases "EnsureListenersNotifiedOfConnect (Suc n) env send this ?w0")
    case None
    with run show ?thesis by (simp add: ProcessNextMessage.simps [of "Suc n"])
  next
    case e1: (Some p1)
    obtain status1 w1 where p1: "p1 = (status1, w1)" by (cases p1)
    have g1: "G ?w0 w1" using e1 p1 by (auto intro: EnsureListenersNotifiedOfConnect_G [OF ok])
    show ?thesis
    proof (cases "IsError status1")
      case True
      with run e1 p1 have "w' = ?dec w1" by (auto simp: ProcessNextMessage.simps [of "Suc n"])
      with g0 g1 dec [of w1] show ?thesis by (blast intro: G_trans)
    next
      case ne1: False
      show ?thesis
      proof (cases "EnsureListenersNotifiedOfEvent (Suc n) env send this w1")
        case None
        with run e1 p1 ne1 show ?thesis by (simp add: ProcessNextMessage.simps [of "Suc n"])
      next
        case e2: (Some p2)
        obtain status2 w2 where p2: "p2 = (status2, w2)" by (cases p2)
        have g2: "G w1 w2" using e2 p2 by (auto intro: EnsureListenersNotifiedOfEvent_G [OF ok])
        show ?thesis
        proof (cases "IsError status2")
          case True
          with run e1 p1 ne1 e2 p2 have "w' = ?dec w2"
            by (auto simp: ProcessNextMessage.simps [of "Suc n"])
          with g0 g1 g2 dec [of w2] show ?thesis by (blast intro: G_trans)
        next
          case ne2: False
          show ?thesis
          proof (cases "EnsureListenersNotifiedOfCommandResponse (Suc n) env send this w2")
            case None
            with run e1 p1 ne1 e2 p2 ne2 show ?thesis
              by (simp add: ProcessNextMessage.simps [of "Suc n"])
          next
            case e3: (Some p3)
            obtain status3 w3 where p3: "p3 = (status3, w3)" by (cases p3)
            have g3: "G w2 w3"
              using e3 p3 by (auto intro: EnsureListenersNotifiedOfCommandResponse_G [OF ok])
            have g03: "G w w3" using g0 g1 g2 g3 by (blast intro: G_trans)
            from run e1 p1 ne1 e2 p2 ne2 e3 p3
            have "w' \<in> ?dec ` {v. G w3 v}"
              by (auto simp: ProcessNextMessage.simps [of "Suc n"]
                       split: if_splits option.splits prod.splits SyncWebSocket_StatusCode.splits
                       intro: HandleMessage_G_ext [OF ok] Suc.IH)
            with g03 dec show ?thesis by (blast intro: G_trans)
          qed
        qed
      qed
    qed
  qed
qed

lemma SendCommandInternal_wait_G:
  assumes ok: "send_ok send"
  shows "SendCommandInternal_wait fuel env send this command_id response_info timeout w = Some x \<Longrightarrow>
         (case x of
            Inl (st, w') \<Rightarrow> G w w'
          | Inr w' \<Rightarrow> G w w' \<and> ri_state (heap w' ! response_info) \<noteq> kWaiting)"
proof (induction fuel arbitrary: w)
  case 0
  then show ?case
    by (auto simp: SendCommandInternal_wait.simps [of 0] split: if_splits)
next
  case (Suc n)
  note run = Suc.prems
  show ?case
  proof (cases "ri_state (heap w ! response_info) \<noteq> kWaiting")
    case True
    with run show ?thesis
      by (auto simp: SendCommandInternal_wait.simps [of "Suc n"])
  next
    case waiting: False
    let ?t = "case timeout of Some t \<Rightarrow> t | None \<Rightarrow> Some 600000"
    show ?thesis
    proof (cases "ProcessNextMessage (Suc n) env send this command_id True ?t this w")
      case None
      with run waiting show ?thesis
        by (simp add: SendCommandInternal_wait.simps [of "Suc n"])
    next
      case pnm: (Some p)
      obtain status w1 where p: "p = (status, w1)" by (cases p)
      have g1: "G w w1" using pnm p by (auto intro: ProcessNextMessage_G [OF ok])
      show ?thesis
      proof (cases "IsError status")
        case True
        let ?w2 = "if ri_state (heap w1 ! response_info) = kReceived then
                     update_client this
                       (\<lambda>c. c\<lparr>m_response_info_map :=
                                AList.delete command_id (m_response_info_map c)\<rparr>) w1
                   else w1"
        from run waiting pnm p True have x: "x = Inl (status, ?w2)"
          by (simp add: SendCommandInternal_wait.simps [of "Suc n"])
        have "G w1 ?w2" by (simp add: G_erase)
        with g1 have "G w ?w2" by (rule G_trans)
        with x show ?thesis by simp
      next
        case False
        with run waiting pnm p
        have "SendCommandInternal_wait n env send this command_id response_info timeout w1 = Some x"
          by (simp add: SendCommandInternal_wait.simps [of "Suc n"])
        from Suc.IH [OF this] g1 show ?thesis
          by (auto split: sum.splits intro: G_trans)
      qed
    qed
  qed
qed

lemma AdvanceNextMessageId_G:
  "AdvanceNextMessageId fuel this w = Some (i, w') \<Longrightarrow> G w w'"
  by (auto simp: AdvanceNextMessageId_def G_update_client_other split: option.splits)

lemma AdvanceNextMessageId_heap:
  "AdvanceNextMessageId fuel this w = Some (i, w') \<Longrightarrow> heap w' = heap w"
  by (auto simp: AdvanceNextMessageId_def update_client_def split: option.splits)

lemma SendCommandInternal_G:
  assumes ok: "send_ok send"
    and run: "SendCommandInternal fuel env send this method params result expect_response
                wait_for_response client_command_id timeout w = Some (r, w')"
  shows "G w w'"
proof -
  let ?c = "clients w this"
  have guard1: "\<not> (m_parent ?c = None \<and> m_socket ?c = None)"
    using run by (auto simp: SendCommandInternal_def split: if_splits)
  show ?thesis
  proof (cases "m_parent ?c = None \<and> \<not> socket_IsConnected env (the (m_socket ?c)) (ext w)")
    case True
    with run guard1 have "w' = w" by (auto simp: SendCommandInternal_def split: if_splits)
    then show ?thesis by simp
  next
    case guard2: False
    let ?idres = "if client_command_id \<noteq> 0 then Some (client_command_id, w)
                  else AdvanceNextMessageId fuel this w"
    show ?thesis
    proof (cases ?idres)
      case None
      with run guard1 guard2 show ?thesis by (auto simp: SendCommandInternal_def split: if_splits)
    next
      case idres: (Some p)
      obtain command_id w1 where p: "p = (command_id, w1)" by (cases p)
      have g1: "G w w1"
        using idres p by (auto split: if_splits dest: AdvanceNextMessageId_G)
      have heap1: "heap w1 = heap w"
        using idres p by (auto split: if_splits dest: AdvanceNextMessageId_heap)
      let ?command0 = "Set (Set (Set [] ''id'' (Integer command_id)) ''method'' (String method))
                         ''params'' (Dict params)"
      let ?command = "if m_session_id (clients w1 this) \<noteq> []
                      then Set ?command0 ''sessionId'' (String (m_session_id (clients w1 this)))
                      else ?command0"
      obtain status message where ser: "SerializeAsJson env (Dict ?command) = (status, message)"
        by (cases "SerializeAsJson env (Dict ?command)")
      note pre1 = guard1 guard2 idres p ser
      show ?thesis
      proof (cases "IsError status")
        case True
        with run pre1 have "w' = w1"
          by (auto simp: SendCommandInternal_def Let_def split: if_splits)
        with g1 show ?thesis by simp
      next
        case ser_ok: False
        show ?thesis
        proof (cases "GetRootClient fuel w1 this")
          case None
          with run pre1 ser_ok show ?thesis
            by (auto simp: SendCommandInternal_def Let_def split: if_splits)
        next
          case root: (Some root)
          show ?thesis
          proof (cases "m_socket (clients w1 root)")
            case None
            with run pre1 ser_ok root show ?thesis
              by (auto simp: SendCommandInternal_def Let_def split: if_splits)
          next
            case sock: (Some socket)
            obtain sent e where snd: "socket_Send env socket message (ext w1) = (sent, e)"
              by (cases "socket_Send env socket message (ext w1)")
            let ?w2 = "w1\<lparr>ext := e\<rparr>"
            have g2: "G w ?w2" using g1 G_ext by (rule G_trans)
            note pre2 = pre1 ser_ok root sock snd
            show ?thesis
            proof (cases "sent \<and> expect_response")
              case False
              with run pre2 have "w' = ?w2"
                by (auto simp: SendCommandInternal_def Let_def split: if_splits)
              with g2 show ?thesis by simp
            next
              case True
              let ?ri = "length (heap ?w2)"
              let ?w3 = "?w2\<lparr>heap := heap ?w2 @
                           [(ResponseInfo_new method)
                              \<lparr>ri_command_timeout :=
                                 (case timeout of Some t \<Rightarrow> t | None \<Rightarrow> None)\<rparr>]\<rparr>"
              let ?w4 = "update_client this
                           (\<lambda>c. c\<lparr>m_response_info_map :=
                                    AList.update command_id ?ri (m_response_info_map c)\<rparr>) ?w3"
              have "G ?w2 ?w4" by (rule G_new_slot) (simp add: ResponseInfo_new_def)
              with g2 have g4: "G w ?w4" by (rule G_trans)
              show ?thesis
              proof (cases wait_for_response)
                case False
                with run pre2 True have "w' = ?w4"
                  by (auto simp: SendCommandInternal_def Let_def split: if_splits)
                with g4 show ?thesis by simp
              next
                case wait: True
                show ?thesis
                proof (cases "SendCommandInternal_wait fuel env send this command_id ?ri timeout ?w4")
                  case None
                  with run pre2 True wait show ?thesis
                    by (auto simp: SendCommandInternal_def Let_def split: if_splits)
                next
                  case loop: (Some x)
                  note wg = SendCommandInternal_wait_G [OF ok loop]
                  show ?thesis
                  proof (cases x)
                    case (Inl q)
                    obtain st5 w5 where q: "q = (st5, w5)" by (cases q)
                    with run pre2 True wait loop Inl have "w' = w5"
                      by (auto simp: SendCommandInternal_def Let_def split: if_splits)
                    moreover have "G ?w4 w5" using wg Inl q by simp
                    ultimately show ?thesis using g4 by (blast intro: G_trans)
                  next
                    case (Inr w5)
                    have g5: "G ?w4 w5" using wg Inr by simp
                    show ?thesis
                    proof (cases "ri_state (heap w5 ! ?ri) = kBlocked")
                      case blocked: True
                      let ?w6 = "update_slot ?ri (\<lambda>i. i\<lparr>ri_state := kIgnored\<rparr>) w5"
                      from run pre2 True wait loop Inr blocked have "w' = ?w6"
                        by (auto simp: SendCommandInternal_def Let_def
                                 split: if_splits option.splits prod.splits)
                      moreover from g4 g5 have "G w w5" by (rule G_trans)
                      then have "G w ?w6" by (rule G_ignore_new) (simp add: heap1)
                      ultimately show ?thesis by simp
                    next
                      case False
                      with run pre2 True wait loop Inr have "w' = w5"
                        by (auto simp: SendCommandInternal_def Let_def
                                 split: if_splits option.splits)
                      with g4 g5 show ?thesis by (blast intro: G_trans)
                    qed
                  qed
                qed
              qed
            qed
          qed
        qed
      qed
    qed
  qed
qed

lemma SendCommandInternal_send_ok: "send_ok send \<Longrightarrow> send_ok (SendCommandInternal fuel env send)"
  unfolding send_ok_def [of "SendCommandInternal fuel env send"] pres_def
  by (blast intro: SendCommandInternal_G)

lemma nested_send_ok: "send_ok (nested_send n env)"
proof (induction n)
  case 0
  show ?case by (simp add: send_ok_def pres_def)
next
  case (Suc n)
  then show ?case by (simp add: SendCommandInternal_send_ok)
qed

section \<open>A send that waits, and the dialog event\<close>

lemma IsOk_not_IsError: "IsOk s = (\<not> IsError s)"
  by (simp add: IsOk_def IsError_def)

text \<open>
  A send that expects a response and does not wait returns Ok exactly when the command
  was written and its slot stored. The facts of such a run:
\<close>

lemma SendCommandInternal_sent:
  assumes sent: "SendCommandInternal fuel env send this method params result True False
                   client_command_id timeout w = Some ((status0, result0), w4)"
    and ok: "IsOk status0"
  obtains cmd w1 status message root socket e where
    "(m_parent (clients w this) = None \<and> m_socket (clients w this) = None) = False"
    "(m_parent (clients w this) = None \<and>
      \<not> socket_IsConnected env (the (m_socket (clients w this))) (ext w)) = False"
    "(if client_command_id \<noteq> 0 then Some (client_command_id, w)
      else AdvanceNextMessageId fuel this w) = Some (cmd, w1)"
    "heap w1 = heap w"
    "SerializeAsJson env
       (Dict (if m_session_id (clients w1 this) \<noteq> []
              then Set (Set (Set (Set [] ''id'' (Integer cmd)) ''method'' (String method))
                          ''params'' (Dict params))
                     ''sessionId'' (String (m_session_id (clients w1 this)))
              else Set (Set (Set [] ''id'' (Integer cmd)) ''method'' (String method))
                     ''params'' (Dict params))) = (status, message)"
    "\<not> IsError status"
    "GetRootClient fuel w1 this = Some root"
    "m_socket (clients w1 root) = Some socket"
    "socket_Send env socket message (ext w1) = (True, e)"
    "w4 = update_client this
            (\<lambda>c. c\<lparr>m_response_info_map :=
                     AList.update cmd (length (heap w)) (m_response_info_map c)\<rparr>)
            (w1\<lparr>ext := e,
                heap := heap w @
                  [(ResponseInfo_new method)
                     \<lparr>ri_command_timeout := (case timeout of Some t \<Rightarrow> t | None \<Rightarrow> None)\<rparr>]\<rparr>)"
proof -
  let ?c = "clients w this"
  have nerr: "\<not> IsError status0" using ok by (simp add: IsOk_not_IsError)
  have guard1: "\<not> (m_parent ?c = None \<and> m_socket ?c = None)"
    using sent by (auto simp: SendCommandInternal_def split: if_splits)
  have guard2: "\<not> (m_parent ?c = None \<and> \<not> socket_IsConnected env (the (m_socket ?c)) (ext w))"
    using sent guard1 nerr by (auto simp: SendCommandInternal_def IsError_def split: if_splits)
  let ?idres = "if client_command_id \<noteq> 0 then Some (client_command_id, w)
                else AdvanceNextMessageId fuel this w"
  have "?idres \<noteq> None"
  proof
    assume "?idres = None"
    with sent guard1 guard2 show False
      by (auto simp: SendCommandInternal_def split: if_splits)
  qed
  then obtain cmd w1 where idres: "?idres = Some (cmd, w1)" by (cases ?idres) auto
  have heap1: "heap w1 = heap w"
    using idres by (auto split: if_splits dest: AdvanceNextMessageId_heap)
  let ?command0 = "Set (Set (Set [] ''id'' (Integer cmd)) ''method'' (String method))
                     ''params'' (Dict params)"
  let ?command = "if m_session_id (clients w1 this) \<noteq> []
                  then Set ?command0 ''sessionId'' (String (m_session_id (clients w1 this)))
                  else ?command0"
  obtain status message where ser: "SerializeAsJson env (Dict ?command) = (status, message)"
    by (cases "SerializeAsJson env (Dict ?command)")
  note pre1 = guard1 guard2 idres ser
  have ser_ok: "\<not> IsError status"
    using sent pre1 nerr by (auto simp: SendCommandInternal_def Let_def split: if_splits)
  have "GetRootClient fuel w1 this \<noteq> None"
  proof
    assume "GetRootClient fuel w1 this = None"
    with sent pre1 ser_ok show False
      by (auto simp: SendCommandInternal_def Let_def split: if_splits)
  qed
  then obtain root where root: "GetRootClient fuel w1 this = Some root" by auto
  have "m_socket (clients w1 root) \<noteq> None"
  proof
    assume "m_socket (clients w1 root) = None"
    with sent pre1 ser_ok root show False
      by (auto simp: SendCommandInternal_def Let_def split: if_splits)
  qed
  then obtain socket where sock: "m_socket (clients w1 root) = Some socket" by auto
  obtain was_sent e where snd: "socket_Send env socket message (ext w1) = (was_sent, e)"
    by (cases "socket_Send env socket message (ext w1)")
  note pre2 = pre1 ser_ok root sock snd
  have was_sent: was_sent
    using sent pre2 nerr by (auto simp: SendCommandInternal_def Let_def IsError_def split: if_splits)
  have w4: "w4 = update_client this
                   (\<lambda>c. c\<lparr>m_response_info_map :=
                            AList.update cmd (length (heap w)) (m_response_info_map c)\<rparr>)
                   (w1\<lparr>ext := e,
                       heap := heap w @
                         [(ResponseInfo_new method)
                            \<lparr>ri_command_timeout :=
                               (case timeout of Some t \<Rightarrow> t | None \<Rightarrow> None)\<rparr>]\<rparr>)"
    using sent pre2 was_sent heap1
    by (auto simp: SendCommandInternal_def Let_def split: if_splits)
  show ?thesis
    using guard1 guard2 idres heap1 ser ser_ok root sock snd was_sent w4
    by (intro that [of cmd w1 status message root socket e]) simp_all
qed

text \<open>A send that waits continues from that world with the wait loop.\<close>

lemma SendCommandInternal_waits_from_sent:
  assumes sent: "SendCommandInternal fuel env send this method params result True False
                   client_command_id timeout w = Some ((status0, result0), w4)"
    and ok: "IsOk status0"
    and cid: "client_command_id \<noteq> 0 \<and> command_id = client_command_id \<or>
              client_command_id = 0 \<and> NextMessageId fuel w this = Some command_id"
  shows "SendCommandInternal fuel env send this method params result True True
           client_command_id timeout w =
         (case SendCommandInternal_wait fuel env send this command_id (length (heap w)) timeout w4 of
            None \<Rightarrow> None
          | Some (Inl (status, w5)) \<Rightarrow> Some ((status, None), w5)
          | Some (Inr w5) \<Rightarrow>
              if ri_state (heap w5 ! length (heap w)) = kBlocked then
                (let w6 = update_slot (length (heap w)) (\<lambda>i. i\<lparr>ri_state := kIgnored\<rparr>) w5
                 in case m_owner (clients w6 this) of
                   Some owner \<Rightarrow>
                     (case GetDialogMessage env owner (ext w6) of
                        (status, alert_text) \<Rightarrow>
                          if IsOk status then
                            Some ((Status kUnexpectedAlertOpen
                                     (Some (''{Alert text : '' @ alert_text @ ''}'')), None), w6)
                          else Some ((Status kUnexpectedAlertOpen None, None), w6))
                 | None \<Rightarrow> Some ((Status kUnexpectedAlertOpen None, None), w6))
              else if ri_state (heap w5 ! length (heap w)) \<noteq> kReceived then None
              else
                (case rsp_result (ri_response (heap w5 ! length (heap w))) of
                   None \<Rightarrow>
                     Some ((ParseInspectorError (JSONReader_Read env)
                              (rsp_error (ri_response (heap w5 ! length (heap w)))), None), w5)
                 | Some r \<Rightarrow> if result then Some ((Status kOk None, Some r), w5) else None))"
proof -
  from sent ok obtain cmd w1 status message root socket e where
    c1: "(m_parent (clients w this) = None \<and> m_socket (clients w this) = None) = False" and
    c2: "(m_parent (clients w this) = None \<and>
          \<not> socket_IsConnected env (the (m_socket (clients w this))) (ext w)) = False" and
    idres: "(if client_command_id \<noteq> 0 then Some (client_command_id, w)
             else AdvanceNextMessageId fuel this w) = Some (cmd, w1)" and
    heap1: "heap w1 = heap w" and
    ser: "SerializeAsJson env
       (Dict (if m_session_id (clients w1 this) \<noteq> []
              then Set (Set (Set (Set [] ''id'' (Integer cmd)) ''method'' (String method))
                          ''params'' (Dict params))
                     ''sessionId'' (String (m_session_id (clients w1 this)))
              else Set (Set (Set [] ''id'' (Integer cmd)) ''method'' (String method))
                     ''params'' (Dict params))) = (status, message)" and
    ser_ok: "\<not> IsError status" and
    root: "GetRootClient fuel w1 this = Some root" and
    sock: "m_socket (clients w1 root) = Some socket" and
    snd: "socket_Send env socket message (ext w1) = (True, e)" and
    w4: "w4 = update_client this
            (\<lambda>c. c\<lparr>m_response_info_map :=
                     AList.update cmd (length (heap w)) (m_response_info_map c)\<rparr>)
            (w1\<lparr>ext := e,
                heap := heap w @
                  [(ResponseInfo_new method)
                     \<lparr>ri_command_timeout := (case timeout of Some t \<Rightarrow> t | None \<Rightarrow> None)\<rparr>]\<rparr>)"
    by (rule SendCommandInternal_sent)
  have cmd: "cmd = command_id"
    using idres cid
    by (auto simp: AdvanceNextMessageId_def NextMessageId_def split: if_splits option.splits)
  show ?thesis
    unfolding SendCommandInternal_def [of _ _ _ _ _ _ _ True True]
              w4 cmd [symmetric]
    by (simp add: c1 c2 idres ser ser_ok root sock snd heap1 Let_def)
qed


lemma ProcessEvent_dialog:
  assumes dialog: "ev_method event = ''Page.javascriptDialogOpening''"
    and listeners:
      "EnsureListenersNotifiedOfEvent fuel env send this
         (update_client this
            (\<lambda>c. c\<lparr>m_unnotified_event_listeners := m_listeners c,
                   m_unnotified_event := Some event\<rparr>) w) = Some (status, w1)"
    and no_error: "\<not> IsError status"
    and max_id: "NextMessageId fuel
                   (update_client this (\<lambda>c. c\<lparr>m_unnotified_event := None\<rparr>) w1) this =
                 Some max_id"
    and enable:
      "SendCommand send this ''Inspector.enable''
         (Set [] ''purpose'' (String ''detect if alert blocked any cmds''))
         (update_client this (\<lambda>c. c\<lparr>m_unnotified_event := None\<rparr>) w1) =
       Some ((enable_status, result), w3)"
  shows "ProcessEvent fuel env send this event w =
           Some (if IsError enable_status then status else Status kOk None,
                 w3\<lparr>heap := block_waiting max_id (m_response_info_map (clients w3 this))
                               (heap w3)\<rparr>)"
  using assms by (simp add: ProcessEvent_def Let_def)

lemma EnsureListenersNotifiedOfEvent_error_clears:
  "EnsureListenersNotifiedOfEvent fuel env send this w = Some (status, w') \<Longrightarrow> IsError status \<Longrightarrow>
   m_unnotified_event_listeners (clients w' this) = []"
proof (induction fuel arbitrary: w)
  case 0
  then show ?case
    by (auto simp: EnsureListenersNotifiedOfEvent.simps [of 0] IsError_def split: list.splits)
next
  case (Suc n)
  show ?case
  proof (cases "m_unnotified_event_listeners (clients w this)")
    case Nil
    with Suc.prems show ?thesis
      by (simp add: EnsureListenersNotifiedOfEvent.simps [of "Suc n"] IsError_def)
  next
    case (Cons listener rest)
    let ?w0 = "update_client this (\<lambda>c. c\<lparr>m_unnotified_event_listeners := rest\<rparr>) w"
    show ?thesis
    proof (cases "m_unnotified_event (clients w this)")
      case None
      with Suc.prems(1) Cons show ?thesis
        by (simp add: EnsureListenersNotifiedOfEvent.simps [of "Suc n"])
    next
      case (Some event)
      show ?thesis
      proof (cases "run_script (call_api env send)
                      (OnEvent env listener this (ev_method event) (ev_params event)) ?w0")
        case None
        with Suc.prems(1) Cons Some show ?thesis
          by (simp add: EnsureListenersNotifiedOfEvent.simps [of "Suc n"])
      next
        case run: (Some p)
        obtain st1 w1 where p: "p = (st1, w1)" by (cases p)
        from Suc.prems(1) Cons Some run p
        have rest: "(if IsError st1
                     then Some (st1,
                            update_client this (\<lambda>c. c\<lparr>m_unnotified_event_listeners := []\<rparr>) w1)
                     else EnsureListenersNotifiedOfEvent n env send this w1) = Some (status, w')"
          by (simp add: EnsureListenersNotifiedOfEvent.simps [of "Suc n"])
        show ?thesis
        proof (cases "IsError st1")
          case True
          with rest show ?thesis by (auto simp: update_client_def)
        next
          case False
          with rest Suc.IH Suc.prems(2) show ?thesis by simp
        qed
      qed
    qed
  qed
qed

lemma int32_id: "- 2147483648 \<le> x \<Longrightarrow> x \<le> 2147483647 \<Longrightarrow> int32 x = x"
  by (simp add: int32_def)

lemma cdiv_nonneg: "0 \<le> a \<Longrightarrow> 0 < b \<Longrightarrow> cdiv a b = a div b"
  by (cases "a = 0") (simp_all add: cdiv_def)

lemma wf_example_world: "wf_slots (example_world frames)"
  by (simp add: wf_slots_def example_world_def new_client_def)

lemma wf_waiting_world: "wf_slots (waiting_world frames)"
  by (auto simp: wf_slots_def example_defs update_client_def ResponseInfo_new_def
           split: if_splits)

text \<open>The root of a session does not depend on the fuel, nor on anything but the parents.\<close>

lemma GetRootClient_fuel:
  "GetRootClient a w c = Some r \<Longrightarrow> GetRootClient b w c = Some r' \<Longrightarrow> r = r'"
proof (induction a arbitrary: b c)
  case 0
  then show ?case
    by (cases "m_parent (clients w c)")
       (simp_all add: GetRootClient.simps [of 0] GetRootClient.simps [of b])
next
  case (Suc n)
  show ?case
  proof (cases "m_parent (clients w c)")
    case None
    with Suc.prems show ?thesis
      by (simp add: GetRootClient.simps [of "Suc n"] GetRootClient.simps [of b])
  next
    case (Some p)
    show ?thesis
    proof (cases b)
      case 0
      with Suc.prems(2) Some show ?thesis by (simp add: GetRootClient.simps [of 0])
    next
      case (Suc m)
      with Suc.prems Some Suc.IH [of p m] show ?thesis
        by (simp add: GetRootClient.simps [of "Suc n"] GetRootClient.simps [of "Suc m"])
    qed
  qed
qed

lemma GetRootClient_parents:
  "(\<And>c. m_parent (clients w' c) = m_parent (clients w c)) \<Longrightarrow>
   GetRootClient fuel w' c = GetRootClient fuel w c"
proof (induction fuel arbitrary: c)
  case 0
  then show ?case by (simp add: GetRootClient.simps [of 0] split: option.splits)
next
  case (Suc n)
  then show ?case
    by (cases "m_parent (clients w c)") (simp_all add: GetRootClient.simps [of "Suc n"])
qed

lemma ParseInspectorError_IsError: "IsError (ParseInspectorError rd error_json)"
  by (simp add: ParseInspectorError_def IsError_def Let_def
           split: option.splits Value.splits)

lemma SendCommandInternal_wait_Inl:
  "SendCommandInternal_wait fuel env send this command_id response_info timeout w =
     Some (Inl (st, w')) \<Longrightarrow> IsError st"
proof (induction fuel arbitrary: w)
  case 0
  then show ?case
    by (auto simp: SendCommandInternal_wait.simps [of 0] split: if_splits)
next
  case (Suc n)
  note run = Suc.prems
  show ?case
  proof (cases "ri_state (heap w ! response_info) \<noteq> kWaiting")
    case True
    with run show ?thesis
      by (auto simp: SendCommandInternal_wait.simps [of "Suc n"])
  next
    case waiting: False
    let ?t = "case timeout of Some t \<Rightarrow> t | None \<Rightarrow> Some 600000"
    show ?thesis
    proof (cases "ProcessNextMessage (Suc n) env send this command_id True ?t this w")
      case None
      with run waiting show ?thesis
        by (simp add: SendCommandInternal_wait.simps [of "Suc n"])
    next
      case pnm: (Some p)
      obtain status w1 where p: "p = (status, w1)" by (cases p)
      show ?thesis
      proof (cases "IsError status")
        case True
        with run waiting pnm p show ?thesis
          by (simp add: SendCommandInternal_wait.simps [of "Suc n"])
      next
        case False
        with run waiting pnm p
        have "SendCommandInternal_wait n env send this command_id response_info timeout w1 =
                Some (Inl (st, w'))"
          by (simp add: SendCommandInternal_wait.simps [of "Suc n"])
        then show ?thesis by (rule Suc.IH)
      qed
    qed
  qed
qed

text \<open>
  A send that waits and returns Ok has written its command, and its wait loop has ended
  with the response received.
\<close>

lemma SendCommandInternal_awaited:
  assumes run: "SendCommandInternal fuel env send this method params result True True
                  client_command_id timeout w = Some ((st, res), w')"
    and ok: "IsOk st"
  obtains w4 where
    "SendCommandInternal fuel env send this method params result True False
       client_command_id timeout w = Some ((Status kOk None, None), w4)"
proof -
  let ?c = "clients w this"
  have nerr: "\<not> IsError st" using ok by (simp add: IsOk_not_IsError)
  have guard1: "\<not> (m_parent ?c = None \<and> m_socket ?c = None)"
    using run by (auto simp: SendCommandInternal_def split: if_splits)
  have guard2: "\<not> (m_parent ?c = None \<and> \<not> socket_IsConnected env (the (m_socket ?c)) (ext w))"
    using run guard1 nerr by (auto simp: SendCommandInternal_def IsError_def split: if_splits)
  let ?idres = "if client_command_id \<noteq> 0 then Some (client_command_id, w)
                else AdvanceNextMessageId fuel this w"
  have "?idres \<noteq> None"
  proof
    assume "?idres = None"
    with run guard1 guard2 show False
      by (auto simp: SendCommandInternal_def split: if_splits)
  qed
  then obtain cmd w1 where idres: "?idres = Some (cmd, w1)" by (cases ?idres) auto
  let ?command0 = "Set (Set (Set [] ''id'' (Integer cmd)) ''method'' (String method))
                     ''params'' (Dict params)"
  let ?command = "if m_session_id (clients w1 this) \<noteq> []
                  then Set ?command0 ''sessionId'' (String (m_session_id (clients w1 this)))
                  else ?command0"
  obtain status message where ser: "SerializeAsJson env (Dict ?command) = (status, message)"
    by (cases "SerializeAsJson env (Dict ?command)")
  note pre1 = guard1 guard2 idres ser
  have ser_ok: "\<not> IsError status"
    using run pre1 nerr by (auto simp: SendCommandInternal_def Let_def split: if_splits)
  have "GetRootClient fuel w1 this \<noteq> None"
  proof
    assume "GetRootClient fuel w1 this = None"
    with run pre1 ser_ok show False
      by (auto simp: SendCommandInternal_def Let_def split: if_splits)
  qed
  then obtain root where root: "GetRootClient fuel w1 this = Some root" by auto
  have "m_socket (clients w1 root) \<noteq> None"
  proof
    assume "m_socket (clients w1 root) = None"
    with run pre1 ser_ok root show False
      by (auto simp: SendCommandInternal_def Let_def split: if_splits)
  qed
  then obtain socket where sock: "m_socket (clients w1 root) = Some socket" by auto
  obtain was_sent e where snd: "socket_Send env socket message (ext w1) = (was_sent, e)"
    by (cases "socket_Send env socket message (ext w1)")
  note pre2 = pre1 ser_ok root sock snd
  have was_sent: was_sent
    using run pre2 nerr by (auto simp: SendCommandInternal_def Let_def IsError_def split: if_splits)
  have c1: "(m_parent ?c = None \<and> m_socket ?c = None) = False"
    and c2: "(m_parent ?c = None \<and> \<not> socket_IsConnected env (the (m_socket ?c)) (ext w)) = False"
    using guard1 guard2 by simp_all
  have snd': "socket_Send env socket message (ext w1) = (True, e)"
    using snd was_sent by simp
  show ?thesis
    by (rule that, unfold SendCommandInternal_def [of _ _ _ _ _ _ _ True False])
       (simp add: c1 c2 idres ser ser_ok root sock snd' Let_def)
qed

lemma SendCommandInternal_received:
  assumes run: "SendCommandInternal fuel env send this method params result True True
                  client_command_id timeout w = Some ((st, res), w')"
    and ok: "IsOk st"
    and cid: "client_command_id \<noteq> 0 \<and> command_id = client_command_id \<or>
              client_command_id = 0 \<and> NextMessageId fuel w this = Some command_id"
  obtains w4 where
    "SendCommandInternal fuel env send this method params result True False
       client_command_id timeout w = Some ((Status kOk None, None), w4)"
    "SendCommandInternal_wait fuel env send this command_id (length (heap w)) timeout w4 =
       Some (Inr w')"
    "ri_state (heap w' ! length (heap w)) = kReceived"
proof -
  from run ok obtain w4 where
    sent: "SendCommandInternal fuel env send this method params result True False
             client_command_id timeout w = Some ((Status kOk None, None), w4)"
    by (rule SendCommandInternal_awaited)
  have ok0: "IsOk (Status kOk None)" by (simp add: IsOk_def)
  note eq = SendCommandInternal_waits_from_sent [OF sent ok0 cid]
  let ?loop = "SendCommandInternal_wait fuel env send this command_id (length (heap w)) timeout w4"
  let ?a = "length (heap w)"
  have nerr: "\<not> IsError st" using ok by (simp add: IsOk_not_IsError)
  show ?thesis
  proof (cases ?loop)
    case None
    with run eq show ?thesis by simp
  next
    case (Some x)
    show ?thesis
    proof (cases x)
      case (Inl q)
      obtain s5 w5 where q: "q = (s5, w5)" by (cases q)
      from Some Inl q have "IsError s5" by (auto dest: SendCommandInternal_wait_Inl)
      moreover from run eq Some Inl q have "st = s5" by simp
      ultimately show ?thesis using nerr by simp
    next
      case (Inr w5)
      show ?thesis
      proof (cases "ri_state (heap w5 ! ?a) = kBlocked")
        case True
        with run eq Some Inr have "code st = kUnexpectedAlertOpen"
          by (auto simp: Let_def split: option.splits prod.splits if_splits)
        with ok show ?thesis by (simp add: IsOk_def)
      next
        case nb: False
        show ?thesis
        proof (cases "ri_state (heap w5 ! ?a) = kReceived")
          case False
          with run eq Some Inr nb show ?thesis by simp
        next
          case rec: True
          show ?thesis
          proof (cases "rsp_result (ri_response (heap w5 ! ?a))")
            case None
            with run eq Some Inr nb rec
            have "st = ParseInspectorError (JSONReader_Read env)
                         (rsp_error (ri_response (heap w5 ! ?a)))"
              by auto
            with nerr show ?thesis by (simp add: ParseInspectorError_IsError)
          next
            case (Some r)
            with run eq \<open>?loop = Some x\<close> Inr nb rec have "w' = w5"
              by (simp split: if_splits)
            with sent \<open>?loop = Some x\<close> Inr rec show ?thesis
              by (intro that [of w4]) simp_all
          qed
        qed
      qed
    qed
  qed
qed

lemma AdvanceNextMessageId_facts:
  assumes "AdvanceNextMessageId fuel this w = Some (cmd, w1)"
  obtains root where
    "GetRootClient fuel w this = Some root" "cmd = m_next_id (clients w root)"
    "w1 = update_client root (\<lambda>c. c\<lparr>m_next_id := int32 (m_next_id c + 1)\<rparr>) w"
  using assms by (auto simp: AdvanceNextMessageId_def split: option.splits)








section \<open>The claims\<close>






text \<open>
  C3. \<open>ProcessEvent\<close> on \<open>Page.javascriptDialogOpening\<close>, after the listeners ran
  without error. Let \<open>max_id\<close> be the next id read in the world \<open>w2\<close> the
  listeners left, and let the waiting send of \<open>Inspector.enable\<close> from \<open>w2\<close>
  (\<open>SendCommandInternal\<close> with \<open>expect_response\<close> and \<open>wait_for_response\<close>)
  return in the world \<open>w3\<close>. Then the event is processed, its result is the world
  \<open>w3\<close> with the blocking loop applied: every slot stored under an id up to
  \<open>max_id\<close> that is waiting in \<open>w3\<close> is blocked, and every slot stored under a
  larger id keeps its state. When the round trip returns Ok, the command was written to
  the socket of the root under the id \<open>max_id\<close>, its slot was stored under that id,
  and the wait loop ran from there until the response was received. The slots are well
  formed at the start, as they are in every world reached from one with empty pending maps.
\<close>

theorem dialog_opening_blocks_stalled_commands:
  fixes env :: "'e env" and w w1 w3 :: "'e world" and this :: client_ptr and max_id :: int
  defines "w2 \<equiv> update_client this (\<lambda>c. c\<lparr>m_unnotified_event := None\<rparr>) w1"
  defines "command \<equiv>
             Set (Set (Set [] ''id'' (Integer max_id)) ''method'' (String ''Inspector.enable''))
               ''params'' (Dict (Set [] ''purpose'' (String ''detect if alert blocked any cmds'')))"
  defines "w' \<equiv> w3\<lparr>heap := block_waiting max_id (m_response_info_map (clients w3 this))
                                (heap w3)\<rparr>"
  assumes wf: "wf_slots w"
    and dialog: "ev_method event = ''Page.javascriptDialogOpening''"
    and listeners:
      "EnsureListenersNotifiedOfEvent fuel env (nested_send (Suc k) env) this
         (update_client this
            (\<lambda>c. c\<lparr>m_unnotified_event_listeners := m_listeners c,
                   m_unnotified_event := Some event\<rparr>) w) = Some (status, w1)"
    and no_error: "\<not> IsError status"
    and max_id: "NextMessageId fuel w2 this = Some max_id"
    and enable:
      "SendCommandInternal (Suc k) env (nested_send k env) this ''Inspector.enable''
         (Set [] ''purpose'' (String ''detect if alert blocked any cmds''))
         True True True 0 None w2 = Some ((enable_status, result), w3)"
  shows "ProcessEvent fuel env (nested_send (Suc k) env) this event w =
           Some (if IsError enable_status then status else Status kOk None, w') \<and>
         clients w' = clients w3 \<and> ext w' = ext w3 \<and> length (heap w') = length (heap w3) \<and>
         (\<forall>first second.
            (first, second) \<in> set (m_response_info_map (clients w3 this)) \<longrightarrow>
              (first \<le> max_id \<and> ri_state (heap w3 ! second) = kWaiting \<longrightarrow>
                 ri_state (heap w' ! second) = kBlocked) \<and>
              (first > max_id \<longrightarrow>
                 ri_state (heap w' ! second) = ri_state (heap w3 ! second))) \<and>
         (IsOk enable_status \<longrightarrow>
            (\<exists>root socket s message e.
               GetRootClient fuel w2 this = Some root \<and>
               m_socket (clients w2 root) = Some socket \<and>
               SerializeAsJson env
                 (Dict (if m_session_id (clients w2 this) \<noteq> []
                        then Set command ''sessionId'' (String (m_session_id (clients w2 this)))
                        else command)) = (s, message) \<and>
               \<not> IsError s \<and>
               socket_Send env socket message (ext w2) = (True, e) \<and>
               SendCommandInternal_wait (Suc k) env (nested_send k env) this max_id
                 (length (heap w2)) None
                 (update_client this
                    (\<lambda>c. c\<lparr>m_response_info_map :=
                             AList.update max_id (length (heap w2)) (m_response_info_map c)\<rparr>)
                    ((update_client root (\<lambda>c. c\<lparr>m_next_id := int32 (m_next_id c + 1)\<rparr>) w2)
                       \<lparr>ext := e, heap := heap w2 @ [ResponseInfo_new ''Inspector.enable'']\<rparr>)) =
                 Some (Inr w3) \<and>
               ri_state (heap w3 ! length (heap w2)) = kReceived))"
proof -
  let ?send = "nested_send (Suc k) env"
  let ?w0 = "update_client this
               (\<lambda>c. c\<lparr>m_unnotified_event_listeners := m_listeners c,
                      m_unnotified_event := Some event\<rparr>) w"
  let ?m = "m_response_info_map (clients w3 this)"
  let ?params = "Set [] ''purpose'' (String ''detect if alert blocked any cmds'')"
  have ok: "send_ok ?send" and ok': "send_ok (nested_send k env)" by (rule nested_send_ok)+
  have "G w ?w0" by (rule G_update_client_other) simp
  moreover have "G ?w0 w1" by (rule EnsureListenersNotifiedOfEvent_G [OF ok listeners])
  moreover have "G w1 w2" unfolding w2_def by (rule G_update_client_other) simp
  moreover have "G w2 w3" by (rule SendCommandInternal_G [OF ok' enable])
  ultimately have "G w w3" by (blast intro: G_trans)
  with wf have wf3: "wf_slots w3" by (simp add: G_def)
  have enable': "SendCommand ?send this ''Inspector.enable'' ?params
                   (update_client this (\<lambda>c. c\<lparr>m_unnotified_event := None\<rparr>) w1) =
                 Some ((enable_status, None), w3)"
    using enable by (simp add: SendCommand_def SendCommandWithTimeout_def w2_def)
  have run: "ProcessEvent fuel env ?send this event w =
               Some (if IsError enable_status then status else Status kOk None, w')"
    unfolding w'_def
    by (rule ProcessEvent_dialog [OF dialog listeners no_error max_id [unfolded w2_def] enable'])
  have blocked: "ri_state (heap w' ! second) = kBlocked"
    if "(first, second) \<in> set ?m" "first \<le> max_id" "ri_state (heap w3 ! second) = kWaiting"
    for first second
  proof -
    from wf3 that(1) have "second < length (heap w3)" unfolding wf_slots_def by blast
    with that show ?thesis unfolding w'_def by (auto simp: block_waiting_state)
  qed
  have kept: "ri_state (heap w' ! second) = ri_state (heap w3 ! second)"
    if "(first, second) \<in> set ?m" "first > max_id" for first second
  proof -
    from wf3 that(1) have len: "second < length (heap w3)" unfolding wf_slots_def by blast
    have "\<not> (\<exists>f. f \<le> max_id \<and> (f, second) \<in> set ?m)"
    proof
      assume "\<exists>f. f \<le> max_id \<and> (f, second) \<in> set ?m"
      then obtain f where f: "f \<le> max_id" "(f, second) \<in> set ?m" by blast
      with wf3 that(1) have "f = first" unfolding wf_slots_def by blast
      with f that(2) show False by simp
    qed
    with len show ?thesis unfolding w'_def by (simp add: block_waiting_state)
  qed
  have round_trip:
    "\<exists>root socket s message e.
       GetRootClient fuel w2 this = Some root \<and>
       m_socket (clients w2 root) = Some socket \<and>
       SerializeAsJson env
         (Dict (if m_session_id (clients w2 this) \<noteq> []
                then Set command ''sessionId'' (String (m_session_id (clients w2 this)))
                else command)) = (s, message) \<and>
       \<not> IsError s \<and>
       socket_Send env socket message (ext w2) = (True, e) \<and>
       SendCommandInternal_wait (Suc k) env (nested_send k env) this max_id
         (length (heap w2)) None
         (update_client this
            (\<lambda>c. c\<lparr>m_response_info_map :=
                     AList.update max_id (length (heap w2)) (m_response_info_map c)\<rparr>)
            ((update_client root (\<lambda>c. c\<lparr>m_next_id := int32 (m_next_id c + 1)\<rparr>) w2)
               \<lparr>ext := e, heap := heap w2 @ [ResponseInfo_new ''Inspector.enable'']\<rparr>)) =
         Some (Inr w3) \<and>
       ri_state (heap w3 ! length (heap w2)) = kReceived"
    if okst: "IsOk enable_status"
  proof -
    from enable okst obtain w4 where
      sent: "SendCommandInternal (Suc k) env (nested_send k env) this ''Inspector.enable'' ?params
               True True False 0 None w2 = Some ((Status kOk None, None), w4)"
      by (rule SendCommandInternal_awaited)
    have ok0: "IsOk (Status kOk None)" by (simp add: IsOk_def)
    from sent ok0 obtain cmd v1 s message root socket e where
      idres: "(if (0::int) \<noteq> 0 then Some (0, w2)
               else AdvanceNextMessageId (Suc k) this w2) = Some (cmd, v1)" and
      ser: "SerializeAsJson env
              (Dict (if m_session_id (clients v1 this) \<noteq> []
                     then Set (Set (Set (Set [] ''id'' (Integer cmd)) ''method''
                                      (String ''Inspector.enable''))
                                 ''params'' (Dict ?params))
                            ''sessionId'' (String (m_session_id (clients v1 this)))
                     else Set (Set (Set [] ''id'' (Integer cmd)) ''method''
                                 (String ''Inspector.enable''))
                            ''params'' (Dict ?params))) = (s, message)" and
      ser_ok: "\<not> IsError s" and
      root: "GetRootClient (Suc k) v1 this = Some root" and
      sock: "m_socket (clients v1 root) = Some socket" and
      snd: "socket_Send env socket message (ext v1) = (True, e)" and
      w4: "w4 = update_client this
                  (\<lambda>c. c\<lparr>m_response_info_map :=
                           AList.update cmd (length (heap w2)) (m_response_info_map c)\<rparr>)
                  (v1\<lparr>ext := e,
                      heap := heap w2 @
                        [(ResponseInfo_new ''Inspector.enable'')
                           \<lparr>ri_command_timeout := (case None of Some t \<Rightarrow> t | None \<Rightarrow> None)\<rparr>]\<rparr>)"
      by (rule SendCommandInternal_sent)
    from idres have adv: "AdvanceNextMessageId (Suc k) this w2 = Some (cmd, v1)" by simp
    then obtain root' where
      root': "GetRootClient (Suc k) w2 this = Some root'" and
      cmd: "cmd = m_next_id (clients w2 root')" and
      v1: "v1 = update_client root' (\<lambda>c. c\<lparr>m_next_id := int32 (m_next_id c + 1)\<rparr>) w2"
      by (rule AdvanceNextMessageId_facts)
    from max_id obtain root0 where
      root0: "GetRootClient fuel w2 this = Some root0" and
      max0: "max_id = m_next_id (clients w2 root0)"
      by (auto simp: NextMessageId_def split: option.splits)
    have same: "root' = root0" using root' root0 by (rule GetRootClient_fuel)
    have cmd_max: "cmd = max_id" using cmd max0 same by simp
    have "GetRootClient (Suc k) v1 this = GetRootClient (Suc k) w2 this"
      unfolding v1 by (rule GetRootClient_parents) (simp add: update_client_def)
    with root root' same have root_eq: "root = root0" by simp
    have cid: "(0::int) \<noteq> 0 \<and> max_id = 0 \<or>
               (0::int) = 0 \<and> NextMessageId (Suc k) w2 this = Some max_id"
      using root' cmd cmd_max by (simp add: NextMessageId_def)
    from enable okst cid obtain w4' where
      sent': "SendCommandInternal (Suc k) env (nested_send k env) this ''Inspector.enable'' ?params
                True True False 0 None w2 = Some ((Status kOk None, None), w4')" and
      loop: "SendCommandInternal_wait (Suc k) env (nested_send k env) this max_id
               (length (heap w2)) None w4' = Some (Inr w3)" and
      received: "ri_state (heap w3 ! length (heap w2)) = kReceived"
      by (rule SendCommandInternal_received)
    from sent sent' have w4': "w4' = w4" by simp
    have sess: "m_session_id (clients v1 this) = m_session_id (clients w2 this)"
      and sock2: "m_socket (clients v1 root) = m_socket (clients w2 root)"
      and ext1: "ext v1 = ext w2"
      unfolding v1 by (simp_all add: update_client_def)
    have rinew: "(ResponseInfo_new ''Inspector.enable'')
                   \<lparr>ri_command_timeout := (case None of Some t \<Rightarrow> t | None \<Rightarrow> None)\<rparr> =
                 ResponseInfo_new ''Inspector.enable''"
      by (simp add: ResponseInfo_new_def)
    show ?thesis
      apply (rule exI [of _ root0], rule exI [of _ socket], rule exI [of _ s],
             rule exI [of _ message], rule exI [of _ e], intro conjI)
      subgoal by (rule root0)
      subgoal using sock sock2 root_eq by simp
      subgoal unfolding command_def by (rule ser [unfolded sess cmd_max])
      subgoal by (rule ser_ok)
      subgoal using snd ext1 by simp
      subgoal using loop w4' w4 v1 cmd_max same rinew by simp
      subgoal by (rule received)
      done
  qed
  show ?thesis
    apply (intro conjI allI impI)
    subgoal by (rule run)
    subgoal by (simp add: w'_def)
    subgoal by (simp add: w'_def)
    subgoal by (simp add: w'_def)
    subgoal by (elim conjE) (rule blocked)
    subgoal by (rule kept)
    subgoal by (rule round_trip)
    done
qed

theorem dialog_opening_blocks_stalled_commands_witness:
  "wf_slots (waiting_world [''{\"id\":2,\"result\":{}}'']) \<and>
   map ri_state (heap (waiting_world [''{\"id\":2,\"result\":{}}''])) = [kWaiting] \<and>
   m_response_info_map (clients (waiting_world [''{\"id\":2,\"result\":{}}'']) 0) = [(1, 0)] \<and>
   (\<exists>w'. ProcessEvent fuel3 example_env (nested_send fuel3 example_env) 0 dialog_event
             (waiting_world [''{\"id\":2,\"result\":{}}'']) = Some (Status kOk None, w') \<and>
          map ri_state (heap w') = [kBlocked, kReceived] \<and>
          m_response_info_map (clients w' 0) = [(1, 0)] \<and>
          m_next_id (clients w' 0) = 3 \<and>
          outbox (ext w') =
            [''{\"id\":2,\"method\":\"Inspector.enable\",\"params\":{\"purpose\":\"detect if alert blocked any cmds\"}}''] \<and>
          inbox (ext w') = [])"
proof -
  let ?w = "waiting_world [''{\"id\":2,\"result\":{}}'']"
  let ?n = "Suc (Suc 0)"
  let ?send = "nested_send (Suc ?n) example_env"
  let ?w2 = "update_client 0 (\<lambda>c. c\<lparr>m_unnotified_event := None\<rparr>) queued_world"
  have fuel: "nested_send fuel3 example_env = ?send" by (simp only: fuel3_def)
  have dialog: "ev_method dialog_event = ''Page.javascriptDialogOpening''"
    by (simp add: dialog_event_def)
  have listeners:
    "EnsureListenersNotifiedOfEvent fuel3 example_env ?send 0
       (update_client 0
          (\<lambda>c. c\<lparr>m_unnotified_event_listeners := m_listeners c,
                 m_unnotified_event := Some dialog_event\<rparr>) ?w) = Some (Status kOk None, queued_world)"
    by (simp add: queued_world_def example_defs model_defs)
  have no_error: "\<not> IsError (Status kOk None)" by (simp add: IsError_def)
  have max_id: "NextMessageId fuel3 ?w2 0 = Some 2"
    by (simp add: queued_world_def example_defs model_defs)
  have enable:
    "SendCommandInternal (Suc ?n) example_env (nested_send ?n example_env) 0 ''Inspector.enable''
       (Set [] ''purpose'' (String ''detect if alert blocked any cmds''))
       True True True 0 None ?w2 = Some ((Status kOk None, Some (Dict [])), round_trip_world)"
    by (simp add: round_trip_world_def queued_world_def example_defs model_defs)
  have before: "map ri_state (heap ?w) = [kWaiting]"
    "m_response_info_map (clients ?w 0) = [(1, 0)]"
    by (simp_all add: example_defs model_defs)
  let ?w' = "round_trip_world
               \<lparr>heap := block_waiting 2 (m_response_info_map (clients round_trip_world 0))
                          (heap round_trip_world)\<rparr>"
  have after: "map ri_state (heap ?w') = [kBlocked, kReceived]"
    "m_response_info_map (clients ?w' 0) = [(1, 0)]"
    "m_next_id (clients ?w' 0) = 3"
    "outbox (ext ?w') =
       [''{\"id\":2,\"method\":\"Inspector.enable\",\"params\":{\"purpose\":\"detect if alert blocked any cmds\"}}'']"
    "inbox (ext ?w') = []"
    by (simp_all add: round_trip_world_def queued_world_def example_defs model_defs)
  have run: "ProcessEvent fuel3 example_env ?send 0 dialog_event ?w = Some (Status kOk None, ?w')"
    using dialog_opening_blocks_stalled_commands
            [OF wf_waiting_world dialog listeners no_error max_id enable, THEN conjunct1]
    by (simp add: IsError_def)
  show ?thesis
    unfolding fuel
    apply (intro conjI exI [of _ ?w'])
    subgoal by (rule wf_waiting_world)
    subgoal by (rule before)
    subgoal by (rule before)
    subgoal by (rule run)
    subgoal by (rule after)
    subgoal by (rule after)
    subgoal by (rule after)
    subgoal by (rule after)
    subgoal by (rule after)
    done
qed

text \<open>
  C4. \<open>HandleMessage\<close> runs on the root (\<open>this\<close>). When the message parses, is
  routed to the session \<open>client\<close> and the dispatch there returns an error status,
  the pump returns that error if \<open>client\<close> is the caller or the root, and Ok
  otherwise.
\<close>

theorem HandleMessage_error_propagation:
  assumes parse: "m_parser_func (clients w this) message expected_id = Some (session_id, msg)"
    and route: "(if session_id \<noteq> m_session_id (clients w this)
                 then map_of (m_children (clients w this)) session_id
                 else Some this) = Some client"
    and dispatch:
      "(case msg of
          kEventMessageType event \<Rightarrow> ProcessEvent fuel env send client event w
        | kCommandResponseMessageType response \<Rightarrow>
            ProcessCommandResponse fuel env send client response w) = Some (status, w')"
    and err: "IsError status"
  shows "HandleMessage fuel env send this expected_id message caller w =
           Some (if client = caller \<or> client = this then status else Status kOk None, w')"
  using parse route dispatch
  by (cases msg) (auto simp: HandleMessage_def)

theorem HandleMessage_error_propagation_witness:
  "HandleMessage fuel3 example_env (nested_send fuel3 example_env) 0 (- 1) detached_frame 1
     (example_world []) =
     Some (Status kDisconnected (Some ''received Inspector.detached event''), detached_world) \<and>
   HandleMessage fuel3 example_env (nested_send fuel3 example_env) 0 (- 1) detached_frame 0
     (example_world []) = Some (Status kOk None, detached_world)"
proof -
  let ?w = "example_world []"
  let ?send = "nested_send fuel3 example_env"
  let ?status = "Status kDisconnected (Some ''received Inspector.detached event'')"
  have parse: "m_parser_func (clients ?w 0) detached_frame (- 1) =
                 Some (''S'', kEventMessageType detached_event)"
    by (simp add: detached_frame_def detached_event_def example_defs model_defs)
  have route: "(if ''S'' \<noteq> m_session_id (clients ?w 0)
                then map_of (m_children (clients ?w 0)) ''S'' else Some 0) = Some 1"
    by (simp add: example_defs)
  have dispatch:
    "(case kEventMessageType detached_event of
        kEventMessageType event \<Rightarrow> ProcessEvent fuel3 example_env ?send 1 event ?w
      | kCommandResponseMessageType response \<Rightarrow>
          ProcessCommandResponse fuel3 example_env ?send 1 response ?w) =
     Some (?status, detached_world)"
    by (simp add: detached_world_def detached_event_def example_defs model_defs)
  have err: "IsError ?status" by (simp add: IsError_def)
  show ?thesis
    using HandleMessage_error_propagation [OF parse route dispatch err, of 1]
          HandleMessage_error_propagation [OF parse route dispatch err, of 0]
    by simp
qed

text \<open>
  C5. A command response whose id has no entry in the pending map: on the root, when
  the response has no result and its error maps to \<open>kNoSuchFrame\<close>, the result is
  Ok; in every other case it is the unknown error "unexpected command response". The
  world, and with it the pending map, is unchanged.
\<close>

theorem unexpected_command_response:
  assumes "map_of (m_response_info_map (clients w this)) (rsp_id response) = None"
  shows "ProcessCommandResponse fuel env send this response w =
           Some (if m_parent (clients w this) = None \<and> rsp_result response = None \<and>
                    code (ParseInspectorError (JSONReader_Read env) (rsp_error response)) =
                      kNoSuchFrame
                 then Status kOk None
                 else Status kUnknownError (Some ''unexpected command response''), w)"
  using assms by (simp add: ProcessCommandResponse_def)

theorem unexpected_command_response_witness:
  "map_of (m_response_info_map (clients (example_world []) 0)) (rsp_id detached_session_response) =
     None \<and>
   ProcessCommandResponse fuel3 example_env (nested_send fuel3 example_env) 0
     detached_session_response (example_world []) = Some (Status kOk None, example_world []) \<and>
   ProcessCommandResponse fuel3 example_env (nested_send fuel3 example_env) 1
     detached_session_response (example_world []) =
     Some (Status kUnknownError (Some ''unexpected command response''), example_world [])"
proof -
  have absent: "map_of (m_response_info_map (clients (example_world []) c))
                  (rsp_id detached_session_response) = None" for c
    by (simp add: example_defs)
  show ?thesis
    using absent [of 0]
          unexpected_command_response [OF absent [of 0], of fuel3 example_env
            "nested_send fuel3 example_env"]
          unexpected_command_response [OF absent [of 1], of fuel3 example_env
            "nested_send fuel3 example_env"]
    by (simp add: detached_session_response_def example_defs ParseInspectorError_def
          FindInt_def FindString_def inspector_consts)
qed

text \<open>
  C6. For a frame that reads as a JSON object, the result of the parse is fixed as
  follows. With an integer \<open>id\<close> it is a command response with that id, whose
  result is the \<open>result\<close> object when there is one, else whose error is the
  written \<open>error\<close> object when there is one, else whose result is an empty
  object; with an \<open>id\<close> that is not an integer the parse fails. Without an
  \<open>id\<close> the parse fails when no string \<open>method\<close> is there; with the method
  it is the event of that method, with an empty object as params when the frame has no
  \<open>params\<close> object and with the frame's params otherwise. The two exceptions are
  the frames of \<open>Runtime.bindingCalled\<close>: without a string \<open>name\<close> the
  parse fails, and with the name \<open>sendBidiResponse\<close> the payload is read and put
  in place of its text, its id divided by the number of channels, and the parse fails
  when there is no payload that reads as an object. Whatever the parse yields without an
  \<open>id\<close> is an event of the frame's method. The session id is the frame's
  \<open>sessionId\<close>, or empty.
\<close>

theorem ParseInspectorMessage_object:
  assumes "rd JSON_REPLACE_INVALID_CHARACTERS message = Some (Dict d)"
  shows
    "(\<forall>i. FindKey d ''id'' = Some (Integer i) \<longrightarrow>
        ParseInspectorMessage rd wr message expected_id =
          Some (case FindString d ''sessionId'' of Some s \<Rightarrow> s | None \<Rightarrow> [],
                kCommandResponseMessageType
                  (case FindDict d ''result'' of
                     Some res \<Rightarrow> \<lparr>rsp_id = i, rsp_error = [], rsp_result = Some (Dict res)\<rparr>
                   | None \<Rightarrow>
                       (case FindDict d ''error'' of
                          Some err \<Rightarrow>
                            \<lparr>rsp_id = i, rsp_error = wr (Dict err), rsp_result = None\<rparr>
                        | None \<Rightarrow>
                            \<lparr>rsp_id = i, rsp_error = [], rsp_result = Some (Dict [])\<rparr>)))) \<and>
     (\<forall>v. FindKey d ''id'' = Some v \<and> (\<forall>i. v \<noteq> Integer i) \<longrightarrow>
        ParseInspectorMessage rd wr message expected_id = None) \<and>
     (FindKey d ''id'' = None \<longrightarrow>
        (FindString d ''method'' = None \<longrightarrow>
           ParseInspectorMessage rd wr message expected_id = None) \<and>
        (\<forall>m. FindString d ''method'' = Some m \<longrightarrow>
           (FindDict d ''params'' = None \<longrightarrow>
              ParseInspectorMessage rd wr message expected_id =
                Some (case FindString d ''sessionId'' of Some s \<Rightarrow> s | None \<Rightarrow> [],
                      kEventMessageType \<lparr>ev_method = m, ev_params = Dict []\<rparr>)) \<and>
           (\<forall>p. FindDict d ''params'' = Some p \<and>
                (m \<noteq> ''Runtime.bindingCalled'' \<or>
                 (\<exists>name. FindString p ''name'' = Some name \<and> name \<noteq> ''sendBidiResponse'')) \<longrightarrow>
              ParseInspectorMessage rd wr message expected_id =
                Some (case FindString d ''sessionId'' of Some s \<Rightarrow> s | None \<Rightarrow> [],
                      kEventMessageType \<lparr>ev_method = m, ev_params = Dict p\<rparr>)) \<and>
           (\<forall>p. FindDict d ''params'' = Some p \<and> m = ''Runtime.bindingCalled'' \<and>
                FindString p ''name'' = None \<longrightarrow>
              ParseInspectorMessage rd wr message expected_id = None) \<and>
           (\<forall>p. FindDict d ''params'' = Some p \<and> m = ''Runtime.bindingCalled'' \<and>
                FindString p ''name'' = Some ''sendBidiResponse'' \<longrightarrow>
              ParseInspectorMessage rd wr message expected_id =
                (case FindString p ''payload'' of
                   None \<Rightarrow> None
                 | Some ptext \<Rightarrow>
                     (case rd JSON_PARSE_CHROMIUM_EXTENSIONS ptext of
                        Some (Dict payload) \<Rightarrow>
                          Some (case FindString d ''sessionId'' of Some s \<Rightarrow> s | None \<Rightarrow> [],
                                kEventMessageType
                                  \<lparr>ev_method = m,
                                   ev_params =
                                     Dict (Set p ''payload''
                                             (Dict (case FindInt payload ''id'' of
                                                      Some cmd_id \<Rightarrow>
                                                        Set payload ''id''
                                                          (Integer (cdiv cmd_id kMaxChannelCount))
                                                    | None \<Rightarrow> payload)))\<rparr>)
                      | _ \<Rightarrow> None))) \<and>
           (\<forall>sid msg. ParseInspectorMessage rd wr message expected_id = Some (sid, msg) \<longrightarrow>
              (\<exists>ev. msg = kEventMessageType ev \<and> ev_method ev = m))))"
proof -
  have response: "ParseInspectorMessage rd wr message expected_id =
          Some (case FindString d ''sessionId'' of Some s \<Rightarrow> s | None \<Rightarrow> [],
                kCommandResponseMessageType
                  (case FindDict d ''result'' of
                     Some res \<Rightarrow> \<lparr>rsp_id = i, rsp_error = [], rsp_result = Some (Dict res)\<rparr>
                   | None \<Rightarrow>
                       (case FindDict d ''error'' of
                          Some err \<Rightarrow>
                            \<lparr>rsp_id = i, rsp_error = wr (Dict err), rsp_result = None\<rparr>
                        | None \<Rightarrow>
                            \<lparr>rsp_id = i, rsp_error = [], rsp_result = Some (Dict [])\<rparr>)))"
    if "FindKey d ''id'' = Some (Integer i)" for i
    using assms that
    by (simp add: ParseInspectorMessage_def Let_def split: option.splits)
  have bad_id: "ParseInspectorMessage rd wr message expected_id = None"
    if "FindKey d ''id'' = Some v" "\<forall>i. v \<noteq> Integer i" for v
    using assms that
    by (cases v) (simp_all add: ParseInspectorMessage_def Let_def)
  have no_method: "ParseInspectorMessage rd wr message expected_id = None"
    if "FindKey d ''id'' = None" "FindString d ''method'' = None"
    using assms that by (simp add: ParseInspectorMessage_def Let_def)
  have no_params: "ParseInspectorMessage rd wr message expected_id =
                Some (case FindString d ''sessionId'' of Some s \<Rightarrow> s | None \<Rightarrow> [],
                      kEventMessageType \<lparr>ev_method = m, ev_params = Dict []\<rparr>)"
    if "FindKey d ''id'' = None" "FindString d ''method'' = Some m"
       "FindDict d ''params'' = None" for m
    using assms that by (simp add: ParseInspectorMessage_def Let_def)
  have with_params: "ParseInspectorMessage rd wr message expected_id =
                Some (case FindString d ''sessionId'' of Some s \<Rightarrow> s | None \<Rightarrow> [],
                      kEventMessageType \<lparr>ev_method = m, ev_params = Dict p\<rparr>)"
    if "FindKey d ''id'' = None" "FindString d ''method'' = Some m"
       "FindDict d ''params'' = Some p"
       "m \<noteq> ''Runtime.bindingCalled'' \<or>
        (\<exists>name. FindString p ''name'' = Some name \<and> name \<noteq> ''sendBidiResponse'')" for m p
    using assms that
    by (auto simp: ParseInspectorMessage_def Let_def IsBidiMessage_def IsError_def)
  have no_name: "ParseInspectorMessage rd wr message expected_id = None"
    if "FindKey d ''id'' = None" "FindString d ''method'' = Some m"
       "FindDict d ''params'' = Some p" "m = ''Runtime.bindingCalled''"
       "FindString p ''name'' = None" for m p
    using assms that
    by (simp add: ParseInspectorMessage_def Let_def IsBidiMessage_def IsError_def)
  have bidi: "ParseInspectorMessage rd wr message expected_id =
                (case FindString p ''payload'' of
                   None \<Rightarrow> None
                 | Some ptext \<Rightarrow>
                     (case rd JSON_PARSE_CHROMIUM_EXTENSIONS ptext of
                        Some (Dict payload) \<Rightarrow>
                          Some (case FindString d ''sessionId'' of Some s \<Rightarrow> s | None \<Rightarrow> [],
                                kEventMessageType
                                  \<lparr>ev_method = m,
                                   ev_params =
                                     Dict (Set p ''payload''
                                             (Dict (case FindInt payload ''id'' of
                                                      Some cmd_id \<Rightarrow>
                                                        Set payload ''id''
                                                          (Integer (cdiv cmd_id kMaxChannelCount))
                                                    | None \<Rightarrow> payload)))\<rparr>)
                      | _ \<Rightarrow> None))"
    if "FindKey d ''id'' = None" "FindString d ''method'' = Some m"
       "FindDict d ''params'' = Some p" "m = ''Runtime.bindingCalled''"
       "FindString p ''name'' = Some ''sendBidiResponse''" for m p
    using assms that
    by (simp add: ParseInspectorMessage_def Let_def IsBidiMessage_def DeserializePayload_def
          IsError_def split: option.splits Value.splits)
  have event: "\<exists>ev. msg = kEventMessageType ev \<and> ev_method ev = m"
    if "FindKey d ''id'' = None" "FindString d ''method'' = Some m"
       "ParseInspectorMessage rd wr message expected_id = Some (sid, msg)" for m sid msg
    using assms that
    by (auto simp: ParseInspectorMessage_def Let_def
             split: option.splits prod.splits if_splits)
  show ?thesis
    apply (intro conjI allI impI)
    subgoal by (rule response)
    subgoal by (elim conjE) (rule bad_id)
    subgoal by (rule no_method)
    subgoal by (rule no_params)
    subgoal by (elim conjE) (rule with_params)
    subgoal by (elim conjE) (rule no_name)
    subgoal by (elim conjE) (rule bidi)
    subgoal by (rule event)
    done
qed

theorem ParseInspectorMessage_object_witness:
  "example_reader JSON_REPLACE_INVALID_CHARACTERS ''{\"id\":7}'' = Some (Dict [(''id'', Integer 7)]) \<and>
   ParseInspectorMessage example_reader example_writer ''{\"id\":7}'' 7 =
     Some ([], kCommandResponseMessageType \<lparr>rsp_id = 7, rsp_error = [], rsp_result = Some (Dict [])\<rparr>) \<and>
   ParseInspectorMessage example_reader example_writer ''{\"method\":\"Page.loadEventFired\"}'' 7 =
     Some ([], kEventMessageType \<lparr>ev_method = ''Page.loadEventFired'', ev_params = Dict []\<rparr>) \<and>
   ParseInspectorMessage example_reader example_writer
     ''{\"method\":\"Page.frameNavigated\",\"params\":{\"url\":\"about:blank\"}}'' 7 =
     Some ([], kEventMessageType
                 \<lparr>ev_method = ''Page.frameNavigated'',
                  ev_params = Dict [(''url'', String ''about:blank'')]\<rparr>) \<and>
   ParseInspectorMessage example_reader example_writer (bidi_frame ''11'') 7 =
     Some ([], kEventMessageType
                 \<lparr>ev_method = ''Runtime.bindingCalled'',
                  ev_params = Dict [(''name'', String ''sendBidiResponse''),
                                    (''payload'', Dict [(''id'', Integer 5)])]\<rparr>) \<and>
   ParseInspectorMessage example_reader example_writer ''{\"code\":-32602}'' 7 = None"
proof -
  have rd1: "example_reader JSON_REPLACE_INVALID_CHARACTERS ''{\"id\":7}'' =
               Some (Dict [(''id'', Integer 7)])"
    by (simp add: example_reader_def)
  have rd2: "example_reader JSON_REPLACE_INVALID_CHARACTERS ''{\"method\":\"Page.loadEventFired\"}'' =
               Some (Dict [(''method'', String ''Page.loadEventFired'')])"
    by (simp add: example_reader_def)
  have rd3: "example_reader JSON_REPLACE_INVALID_CHARACTERS
               ''{\"method\":\"Page.frameNavigated\",\"params\":{\"url\":\"about:blank\"}}'' =
               Some (Dict [(''method'', String ''Page.frameNavigated''),
                           (''params'', Dict [(''url'', String ''about:blank'')])])"
    by (simp add: example_reader_def)
  have rd4: "example_reader JSON_REPLACE_INVALID_CHARACTERS ''{\"code\":-32602}'' =
               Some (Dict [(''code'', Integer (- 32602))])"
    by (simp add: example_reader_def)
  have rd5: "example_reader JSON_REPLACE_INVALID_CHARACTERS (bidi_frame ''11'') =
               Some (Dict [(''method'', String ''Runtime.bindingCalled''),
                           (''params'', Dict [(''name'', String ''sendBidiResponse''),
                                              (''payload'', String ''{\"id\":11}'')])])"
    by (simp add: example_reader_def bidi_frame_def backslash_def)
  have rd6: "example_reader JSON_PARSE_CHROMIUM_EXTENSIONS ''{\"id\":11}'' =
               Some (Dict [(''id'', Integer 11)])"
    by (simp add: example_reader_def bidi_frame_def backslash_def)
  show ?thesis
    using rd1 rd2 rd3 rd4 rd5 rd6
      ParseInspectorMessage_object
        [of example_reader "''{\"id\":7}''" "[(''id'', Integer 7)]" example_writer 7]
      ParseInspectorMessage_object
        [of example_reader "''{\"method\":\"Page.loadEventFired\"}''"
            "[(''method'', String ''Page.loadEventFired'')]" example_writer 7]
      ParseInspectorMessage_object
        [of example_reader
            "''{\"method\":\"Page.frameNavigated\",\"params\":{\"url\":\"about:blank\"}}''"
            "[(''method'', String ''Page.frameNavigated''),
              (''params'', Dict [(''url'', String ''about:blank'')])]" example_writer 7]
      ParseInspectorMessage_object
        [of example_reader "''{\"code\":-32602}''" "[(''code'', Integer (- 32602))]"
            example_writer 7]
      ParseInspectorMessage_object
        [of example_reader "bidi_frame ''11''"
            "[(''method'', String ''Runtime.bindingCalled''),
              (''params'', Dict [(''name'', String ''sendBidiResponse''),
                                 (''payload'', String ''{\"id\":11}'')])]" example_writer 7]
    by (simp add: FindKey_def FindDict_def FindString_def FindInt_def Set_def cdiv_def
          kMaxChannelCount_def kReservedChannelCount_def kUserChannelCount_def)
qed

text \<open>
  C7. The kind of status \<open>ParseInspectorError\<close> returns is the one the error table
  gives for the integer \<open>code\<close> and the string \<open>message\<close> of the error object, and
  \<open>kUnknownError\<close> when the text does not read as a JSON object.
\<close>

theorem ParseInspectorError_kind:
  "code (ParseInspectorError rd error_json) =
     (case rd JSON_READER_DEFAULT error_json of
        Some (Dict d) \<Rightarrow> inspector_error_kind (FindInt d ''code'') (FindString d ''message'')
      | _ \<Rightarrow> kUnknownError)"
  by (auto simp: ParseInspectorError_def inspector_error_kind_def Let_def inspector_consts
           split: option.splits Value.splits)

theorem ParseInspectorError_kind_witness:
  "code (ParseInspectorError example_reader
           ''{\"code\":-32602,\"message\":\"Invalid parameters\"}'') = kInvalidArgument \<and>
   code (ParseInspectorError example_reader
           ''{\"code\":-32001,\"message\":\"Session with given id not found.\"}'') = kNoSuchFrame"
  using ParseInspectorError_kind [of example_reader
          "''{\"code\":-32602,\"message\":\"Invalid parameters\"}''"]
        ParseInspectorError_kind [of example_reader
          "''{\"code\":-32001,\"message\":\"Session with given id not found.\"}''"]
  by (simp add: example_reader_def inspector_error_kind_def FindInt_def FindString_def)

text \<open>
  An error object with the code \<open>-32602\<close> and no message is not mapped to
  \<open>kInvalidArgument\<close>: the code tests \<open>-32602\<close> only inside the branch that has
  a message.
\<close>

theorem ParseInspectorError_invalid_params_counterexample:
  "example_reader JSON_READER_DEFAULT ''{\"code\":-32602}'' = Some (Dict [(''code'', Integer (- 32602))]) \<and>
   FindInt [(''code'', Integer (- 32602))] ''code'' = Some (- 32602) \<and>
   code (ParseInspectorError example_reader ''{\"code\":-32602}'') = kUnknownError"
  by (simp add: ParseInspectorError_def example_reader_def FindInt_def FindString_def
        inspector_consts)

text \<open>
  C8. A listener that returns an error. For an event: whenever the delivery returns an
  error the event queue of the session is empty; when the listener at the head of the
  queue fails, the delivery returns its status at once, in the world that listener
  left, with only the event queue of this session cleared. For a connection
  notification the delivery returns the status at once, in the world the listener left
  (the other listeners stay queued). For a command response the delivery returns the
  status of the failing listener.
\<close>

theorem listener_error_stops_notification:
  "(EnsureListenersNotifiedOfEvent fuel env send this w = Some (status, w') \<and> IsError status \<longrightarrow>
      m_unnotified_event_listeners (clients w' this) = []) \<and>
   (m_unnotified_event_listeners (clients w this) = listener # rest \<and>
    m_unnotified_event (clients w this) = Some event \<and>
    run_script (call_api env send) (OnEvent env listener this (ev_method event) (ev_params event))
      (update_client this (\<lambda>c. c\<lparr>m_unnotified_event_listeners := rest\<rparr>) w) = Some (status, w1) \<and>
    IsError status \<longrightarrow>
      EnsureListenersNotifiedOfEvent (Suc n) env send this w =
        Some (status, update_client this (\<lambda>c. c\<lparr>m_unnotified_event_listeners := []\<rparr>) w1)) \<and>
   (m_unnotified_connect_listeners (clients w this) = listener # rest \<and>
    run_script (call_api env send) (OnConnected env listener this)
      (update_client this (\<lambda>c. c\<lparr>m_unnotified_connect_listeners := rest\<rparr>) w) = Some (status, w1) \<and>
    IsError status \<longrightarrow>
      EnsureListenersNotifiedOfConnect (Suc n) env send this w = Some (status, w1)) \<and>
   (m_unnotified_cmd_response_listeners (clients w this) = listener # rest \<and>
    m_unnotified_cmd_response_info (clients w this) = Some info \<and>
    run_script (call_api env send)
      (OnCommandSuccess env listener this (ri_method (heap w ! info))
         (rsp_result (ri_response (heap w ! info))) (ri_command_timeout (heap w ! info)))
      (update_client this (\<lambda>c. c\<lparr>m_unnotified_cmd_response_listeners := rest\<rparr>) w) =
      Some (status, w1) \<and>
    IsError status \<longrightarrow>
      map_option fst (EnsureListenersNotifiedOfCommandResponse (Suc n) env send this w) =
        Some status)"
  by (auto simp: EnsureListenersNotifiedOfEvent.simps [of "Suc n"]
                 EnsureListenersNotifiedOfConnect.simps [of "Suc n"]
                 EnsureListenersNotifiedOfCommandResponse.simps [of "Suc n"]
           dest: EnsureListenersNotifiedOfEvent_error_clears)

theorem listener_error_stops_notification_witness:
  "EnsureListenersNotifiedOfEvent fuel3 example_env (nested_send fuel3 example_env) 0
     notifying_world = Some (Status kUnknownError (Some ''listener failed''), failed_event_world) \<and>
   IsError (Status kUnknownError (Some ''listener failed'')) \<and>
   m_unnotified_event_listeners (clients failed_event_world 0) = [] \<and>
   calls (ext failed_event_world) = [(''OnEvent'', 0)]"
proof -
  have run: "EnsureListenersNotifiedOfEvent fuel3 example_env (nested_send fuel3 example_env) 0
               notifying_world =
             Some (Status kUnknownError (Some ''listener failed''), failed_event_world)"
    by (simp add: failed_event_world_def notifying_world_def example_defs model_defs)
  have err: "IsError (Status kUnknownError (Some ''listener failed''))"
    by (simp add: IsError_def)
  have log: "calls (ext failed_event_world) = [(''OnEvent'', 0)]"
    by (simp add: failed_event_world_def notifying_world_def example_defs model_defs)
  from listener_error_stops_notification
         [of fuel3 example_env "nested_send fuel3 example_env" 0 notifying_world
             "Status kUnknownError (Some ''listener failed'')" failed_event_world]
       run err
  have "m_unnotified_event_listeners (clients failed_event_world 0) = []" by blast
  with run err log show ?thesis by simp
qed

text \<open>
  After listener 0 fails, listener 1 is still queued for the same command response,
  and for the same connection; the next pump then calls \<open>OnConnected\<close> of listener 1.
\<close>

theorem remaining_listeners_stay_queued_counterexample:
  "map_option
     (\<lambda>(st, w). (code st, m_unnotified_cmd_response_listeners (clients w 0), calls (ext w)))
     (ProcessCommandResponse fuel3 example_env (nested_send fuel3 example_env) 0
        \<lparr>rsp_id = 1, rsp_error = [], rsp_result = Some (Dict [])\<rparr> (listening_world [])) =
     Some (kUnknownError, [1], [(''OnCommandSuccess'', 0)]) \<and>
   map_option
     (\<lambda>(st, w). (code st, m_unnotified_connect_listeners (clients w 0), calls (ext w)))
     (EnsureListenersNotifiedOfConnect fuel3 example_env (nested_send fuel3 example_env) 0
        connecting_world) =
     Some (kUnknownError, [1], [(''OnConnected'', 0)]) \<and>
   map_option (\<lambda>(st, w). calls (ext w))
     (case EnsureListenersNotifiedOfConnect fuel3 example_env (nested_send fuel3 example_env) 0
             connecting_world of
        None \<Rightarrow> None
      | Some (st, w) \<Rightarrow>
          ProcessNextMessage fuel3 example_env (nested_send fuel3 example_env) 0 (- 1) False
            (Some 0) 0 w) =
     Some [(''OnConnected'', 0), (''OnConnected'', 1)]"
  by (simp add: connecting_world_def example_defs model_defs)

text \<open>
  C9. BiDi command ids. The channel count is the sum of the reserved and the user
  channels, 2, and the user channel is 1. For a user id \<open>u \<ge> 0\<close> and a channel
  \<open>c\<close> in range, with \<open>u * 2 + c\<close> within the 32-bit integers:
  \<open>PostBidiCommandInternal\<close> sends \<open>Runtime.evaluate\<close> with the command whose id
  is \<open>u * 2 + c\<close>, and \<open>ParseInspectorMessage\<close>, on a \<open>sendBidiResponse\<close>
  binding call whose payload has that id, delivers the payload with the id \<open>u\<close>.
\<close>

theorem bidi_command_id_round_trip:
  assumes id: "FindInt command ''id'' = Some u"
    and chan: "0 \<le> c" "c < kMaxChannelCount"
    and range: "0 \<le> u" "u * kMaxChannelCount + c \<le> 2147483647"
  shows "kMaxChannelCount = kReservedChannelCount + kUserChannelCount \<and>
         kMaxChannelCount = 2 \<and> kReservedChannelCount = 1 \<and>
         (\<forall>s1 json s2 arg.
            SerializeAsJson env (Dict (Set command ''id'' (Integer (u * kMaxChannelCount + c)))) =
              (s1, json) \<and> \<not> IsError s1 \<and>
            SerializeAsJson env (String json) = (s2, arg) \<and> \<not> IsError s2 \<longrightarrow>
            PostBidiCommandInternal env send this c command w =
              SendCommandAndIgnoreResponse send this ''Runtime.evaluate''
                (Set [] ''expression'' (String (''onBidiMessage('' @ arg @ '')''))) w) \<and>
         (\<forall>message d params ptext payload.
            rd JSON_REPLACE_INVALID_CHARACTERS message = Some (Dict d) \<and>
            FindKey d ''id'' = None \<and>
            FindString d ''method'' = Some ''Runtime.bindingCalled'' \<and>
            FindDict d ''params'' = Some params \<and>
            FindString params ''name'' = Some ''sendBidiResponse'' \<and>
            FindString params ''payload'' = Some ptext \<and>
            rd JSON_PARSE_CHROMIUM_EXTENSIONS ptext = Some (Dict payload) \<and>
            FindInt payload ''id'' = Some (u * kMaxChannelCount + c) \<longrightarrow>
            (\<exists>session_id.
               ParseInspectorMessage rd wr message expected_id =
                 Some (session_id,
                       kEventMessageType
                         \<lparr>ev_method = ''Runtime.bindingCalled'',
                          ev_params =
                            Dict (Set params ''payload''
                                    (Dict (Set payload ''id'' (Integer u))))\<rparr>)))"
proof -
  have k: "kMaxChannelCount = 2"
    by (simp add: kMaxChannelCount_def kReservedChannelCount_def kUserChannelCount_def)
  have wire: "int32 (u * kMaxChannelCount + c) = u * kMaxChannelCount + c"
    using chan range by (intro int32_id) (simp_all add: k)
  have restored: "cdiv (u * kMaxChannelCount + c) kMaxChannelCount = u"
    using chan range k by (simp add: cdiv_nonneg)
  have out: "PostBidiCommandInternal env send this c command w =
              SendCommandAndIgnoreResponse send this ''Runtime.evaluate''
                (Set [] ''expression'' (String (''onBidiMessage('' @ arg @ '')''))) w"
    if "SerializeAsJson env (Dict (Set command ''id'' (Integer (u * kMaxChannelCount + c)))) =
              (s1, json)" "\<not> IsError s1" "SerializeAsJson env (String json) = (s2, arg)"
       "\<not> IsError s2" for s1 json s2 arg
    using that id chan
    by (simp add: PostBidiCommandInternal_def Let_def wire)
  have inb: "\<exists>session_id.
               ParseInspectorMessage rd wr message expected_id =
                 Some (session_id,
                       kEventMessageType
                         \<lparr>ev_method = ''Runtime.bindingCalled'',
                          ev_params =
                            Dict (Set params ''payload''
                                    (Dict (Set payload ''id'' (Integer u))))\<rparr>)"
    if "rd JSON_REPLACE_INVALID_CHARACTERS message = Some (Dict d)"
       "FindKey d ''id'' = None"
       "FindString d ''method'' = Some ''Runtime.bindingCalled''"
       "FindDict d ''params'' = Some params"
       "FindString params ''name'' = Some ''sendBidiResponse''"
       "FindString params ''payload'' = Some ptext"
       "rd JSON_PARSE_CHROMIUM_EXTENSIONS ptext = Some (Dict payload)"
       "FindInt payload ''id'' = Some (u * kMaxChannelCount + c)"
    for message d params ptext payload
    using that
    by (simp add: ParseInspectorMessage_def Let_def IsBidiMessage_def DeserializePayload_def
          IsError_def restored)
  show ?thesis
    using k out inb
    by (simp add: kMaxChannelCount_def kReservedChannelCount_def kUserChannelCount_def)
qed

theorem bidi_command_id_round_trip_witness:
  "5 * kMaxChannelCount + kReservedChannelCount = 11 \<and>
   PostBidiCommandInternal example_env (nested_send fuel3 example_env) 0 kReservedChannelCount
     [(''id'', Integer 5)] (example_world []) =
     SendCommandAndIgnoreResponse (nested_send fuel3 example_env) 0 ''Runtime.evaluate''
       [(''expression'', String (''onBidiMessage('' @ quoted_id ''11'' @ '')''))] (example_world []) \<and>
   ParseInspectorMessage example_reader example_writer (bidi_frame ''11'') 0 =
     Some ([], kEventMessageType
                 \<lparr>ev_method = ''Runtime.bindingCalled'',
                  ev_params = Dict [(''name'', String ''sendBidiResponse''),
                                    (''payload'', Dict [(''id'', Integer 5)])]\<rparr>)"
proof -
  have k: "kMaxChannelCount = 2" "kReservedChannelCount = 1"
    by (simp_all add: kMaxChannelCount_def kReservedChannelCount_def kUserChannelCount_def)
  have id: "FindInt [(''id'', Integer 5)] ''id'' = Some 5" by (simp add: FindInt_def)
  have chan: "0 \<le> kReservedChannelCount" "kReservedChannelCount < kMaxChannelCount"
    by (simp_all add: k)
  have range: "(0::int) \<le> 5" "5 * kMaxChannelCount + kReservedChannelCount \<le> 2147483647"
    by (simp_all add: k)
  note rt = bidi_command_id_round_trip [OF id chan range, of example_env
              "nested_send fuel3 example_env" 0 "example_world []" example_reader example_writer 0]
  have ser1: "SerializeAsJson example_env
                (Dict (Set [(''id'', Integer 5)] ''id''
                         (Integer (5 * kMaxChannelCount + kReservedChannelCount)))) =
              (Status kOk None, ''{\"id\":11}'')"
    by (simp add: k example_env_def example_writer_def Set_def)
  have ser2: "SerializeAsJson example_env (String ''{\"id\":11}'') =
              (Status kOk None, quoted_id ''11'')"
    by (simp add: example_env_def example_writer_def quoted_id_def)
  have ok: "\<not> IsError (Status kOk None)" by (simp add: IsError_def)
  from rt ser1 ser2 ok
  have out: "PostBidiCommandInternal example_env (nested_send fuel3 example_env) 0
               kReservedChannelCount [(''id'', Integer 5)] (example_world []) =
             SendCommandAndIgnoreResponse (nested_send fuel3 example_env) 0 ''Runtime.evaluate''
               (Set [] ''expression'' (String (''onBidiMessage('' @ quoted_id ''11'' @ '')'')))
               (example_world [])"
    by blast
  let ?params = "[(''name'', String ''sendBidiResponse''), (''payload'', String ''{\"id\":11}'')]"
  let ?d = "[(''method'', String ''Runtime.bindingCalled''), (''params'', Dict ?params)]"
  have frame: "example_reader JSON_REPLACE_INVALID_CHARACTERS (bidi_frame ''11'') = Some (Dict ?d)"
    by (simp add: example_reader_def bidi_frame_def backslash_def)
  have payload: "example_reader JSON_PARSE_CHROMIUM_EXTENSIONS ''{\"id\":11}'' =
                   Some (Dict [(''id'', Integer 11)])"
    by (simp add: example_reader_def bidi_frame_def backslash_def)
  have fields: "FindKey ?d ''id'' = None"
    "FindString ?d ''method'' = Some ''Runtime.bindingCalled''"
    "FindDict ?d ''params'' = Some ?params"
    "FindString ?params ''name'' = Some ''sendBidiResponse''"
    "FindString ?params ''payload'' = Some ''{\"id\":11}''"
    "FindInt [(''id'', Integer 11)] ''id'' = Some (5 * kMaxChannelCount + kReservedChannelCount)"
    by (simp_all add: FindKey_def FindString_def FindDict_def FindInt_def k)
  from rt frame payload fields
  obtain session_id where parsed:
    "ParseInspectorMessage example_reader example_writer (bidi_frame ''11'') 0 =
       Some (session_id,
             kEventMessageType
               \<lparr>ev_method = ''Runtime.bindingCalled'',
                ev_params = Dict (Set ?params ''payload''
                                    (Dict (Set [(''id'', Integer 11)] ''id'' (Integer 5))))\<rparr>)"
    by blast
  have "map_option fst (ParseInspectorMessage example_reader example_writer (bidi_frame ''11'') 0) =
          Some []"
    by (simp add: example_defs model_defs)
  with parsed have "session_id = []" by simp
  with parsed have inb: "ParseInspectorMessage example_reader example_writer (bidi_frame ''11'') 0 =
     Some ([], kEventMessageType
                 \<lparr>ev_method = ''Runtime.bindingCalled'',
                  ev_params = Dict [(''name'', String ''sendBidiResponse''),
                                    (''payload'', Dict [(''id'', Integer 5)])]\<rparr>)"
    by (simp add: Set_def)
  show ?thesis using out inb by (simp add: k Set_def)
qed

text \<open>
  The user id \<open>-1\<close> on the user channel goes out as \<open>-1\<close> and comes back as \<open>0\<close>:
  the division of C++ truncates towards zero.
\<close>

theorem negative_bidi_id_counterexample:
  "PostBidiCommand example_env (nested_send fuel3 example_env) 0 [(''id'', Integer (- 1))]
     (example_world []) =
     SendCommandAndIgnoreResponse (nested_send fuel3 example_env) 0 ''Runtime.evaluate''
       [(''expression'', String (''onBidiMessage('' @ quoted_id ''-1'' @ '')''))] (example_world []) \<and>
   ParseInspectorMessage example_reader example_writer (bidi_frame ''-1'') 0 =
     Some ([], kEventMessageType
                 \<lparr>ev_method = ''Runtime.bindingCalled'',
                  ev_params = Dict [(''name'', String ''sendBidiResponse''),
                                    (''payload'', Dict [(''id'', Integer 0)])]\<rparr>)"
  by (simp add: PostBidiCommand_def PostBidiCommandInternal_def kMaxChannelCount_def
        kReservedChannelCount_def kUserChannelCount_def cdiv_def quoted_id_def
        example_defs model_defs)

text \<open>
  C10. \<open>ProcessEvent\<close> on \<open>Page.javascriptDialogOpening\<close> when the synthetic
  round trip returns an error: the waiting slots stored under ids up to \<open>max_id\<close>
  are still blocked, and the status returned is the one left by the listeners, which
  is Ok, not the error of the round trip.
\<close>

theorem failed_round_trip_is_hidden:
  assumes dialog: "ev_method event = ''Page.javascriptDialogOpening''"
    and listeners:
      "EnsureListenersNotifiedOfEvent fuel env send this
         (update_client this
            (\<lambda>c. c\<lparr>m_unnotified_event_listeners := m_listeners c,
                   m_unnotified_event := Some event\<rparr>) w) = Some (status, w1)"
    and no_error: "\<not> IsError status"
    and max_id: "NextMessageId fuel
                   (update_client this (\<lambda>c. c\<lparr>m_unnotified_event := None\<rparr>) w1) this =
                 Some max_id"
    and enable:
      "SendCommand send this ''Inspector.enable''
         (Set [] ''purpose'' (String ''detect if alert blocked any cmds''))
         (update_client this (\<lambda>c. c\<lparr>m_unnotified_event := None\<rparr>) w1) =
       Some ((enable_status, result), w3)"
    and failed: "IsError enable_status"
  shows "\<exists>w'. ProcessEvent fuel env send this event w = Some (status, w') \<and>
              code status = kOk \<and>
              (\<forall>first second.
                 (first, second) \<in> set (m_response_info_map (clients w3 this)) \<and>
                 first \<le> max_id \<and> second < length (heap w3) \<and>
                 ri_state (heap w3 ! second) = kWaiting \<longrightarrow>
                 ri_state (heap w' ! second) = kBlocked)"
proof -
  let ?w' = "w3\<lparr>heap := block_waiting max_id (m_response_info_map (clients w3 this)) (heap w3)\<rparr>"
  have "ProcessEvent fuel env send this event w = Some (status, ?w')"
    using ProcessEvent_dialog [OF dialog listeners no_error max_id enable] failed by simp
  moreover have "code status = kOk" using no_error by (simp add: IsError_def)
  moreover have "ri_state (heap ?w' ! second) = kBlocked"
    if "(first, second) \<in> set (m_response_info_map (clients w3 this))" "first \<le> max_id"
       "second < length (heap w3)" "ri_state (heap w3 ! second) = kWaiting" for first second
    using that by (auto simp: block_waiting_state)
  ultimately show ?thesis by blast
qed

theorem failed_round_trip_is_hidden_witness:
  "SendCommand (nested_send fuel3 example_env) 0 ''Inspector.enable''
     (Set [] ''purpose'' (String ''detect if alert blocked any cmds''))
     (update_client 0
        (\<lambda>c. c\<lparr>m_unnotified_event_listeners := [], m_unnotified_event := None\<rparr>)
        (waiting_world [])) =
     Some ((Status kTimeout (Some ''Timed out receiving message from renderer: 600.000''), None),
           timed_out_world) \<and>
   (\<exists>w'. ProcessEvent fuel3 example_env (nested_send fuel3 example_env) 0 dialog_event
            (waiting_world []) = Some (Status kOk None, w') \<and>
         ri_state (heap w' ! 0) = kBlocked)"
proof -
  let ?w = "waiting_world []"
  let ?send = "nested_send fuel3 example_env"
  let ?w1 = "update_client 0
               (\<lambda>c. c\<lparr>m_unnotified_event_listeners := m_listeners c,
                      m_unnotified_event := Some dialog_event\<rparr>) ?w"
  let ?w2 = "update_client 0 (\<lambda>c. c\<lparr>m_unnotified_event := None\<rparr>) ?w1"
  let ?timeout = "Status kTimeout (Some ''Timed out receiving message from renderer: 600.000'')"
  have dialog: "ev_method dialog_event = ''Page.javascriptDialogOpening''"
    by (simp add: dialog_event_def)
  have listeners:
    "EnsureListenersNotifiedOfEvent fuel3 example_env ?send 0 ?w1 = Some (Status kOk None, ?w1)"
    by (simp add: example_defs model_defs)
  have no_error: "\<not> IsError (Status kOk None)" by (simp add: IsError_def)
  have max_id: "NextMessageId fuel3 ?w2 0 = Some 2"
    by (simp add: example_defs model_defs)
  have w2: "?w2 = update_client 0
                    (\<lambda>c. c\<lparr>m_unnotified_event_listeners := [], m_unnotified_event := None\<rparr>) ?w"
    by (simp add: example_defs update_client_def)
  have enable:
    "SendCommand ?send 0 ''Inspector.enable''
       (Set [] ''purpose'' (String ''detect if alert blocked any cmds'')) ?w2 =
     Some ((?timeout, None), timed_out_world)"
    unfolding w2 by (simp add: timed_out_world_def example_defs model_defs)
  have failed: "IsError ?timeout" by (simp add: IsError_def)
  have entry: "(1, 0) \<in> set (m_response_info_map (clients timed_out_world 0))"
    and waiting: "ri_state (heap timed_out_world ! 0) = kWaiting"
    and len: "0 < length (heap timed_out_world)"
    by (simp_all add: timed_out_world_def example_defs model_defs)
  from failed_round_trip_is_hidden [OF dialog listeners no_error max_id enable failed]
  obtain w' where
    run: "ProcessEvent fuel3 example_env ?send 0 dialog_event ?w = Some (Status kOk None, w')" and
    slots: "\<forall>first second.
              (first, second) \<in> set (m_response_info_map (clients timed_out_world 0)) \<and>
              first \<le> 2 \<and> second < length (heap timed_out_world) \<and>
              ri_state (heap timed_out_world ! second) = kWaiting \<longrightarrow>
              ri_state (heap w' ! second) = kBlocked"
    by blast
  from slots entry waiting len have "ri_state (heap w' ! 0) = kBlocked" by fastforce
  with run enable [unfolded w2] show ?thesis by blast
qed

end
